theory Spec2Isabelle
  imports Main "HOL-Library.Sublist"
begin

section \<open>Python values\<close>

text \<open>
  The pipeline passes untyped key/value records (the provider's JSON response, the
  dictionaries built from it) between its stages. They are modelled by one universe of
  Python values: \<open>None\<close>, booleans, unbounded integers, strings, lists and dictionaries.
  A dictionary is an association list; the first binding of a key is the dictionary's
  binding. Floating point numbers are left out of the universe. Strings are lists of
  \<open>char\<close>; the case and whitespace functions below are those of Python on ASCII text, a
  character outside ASCII has no case and is no whitespace.
\<close>

datatype pyval =
    PNone
  | PBool bool
  | PInt int
  | PStr string
  | PList "pyval list"
  | PDict "(string \<times> pyval) list"

datatype error =
    TypeError
  | AttributeError
  | IndexError
  | KeyError
  | ValueError

type_synonym pydict = "(string \<times> pyval) list"

text \<open>\<open>bool(v)\<close>, the test behind \<open>if v\<close>, \<open>not v\<close> and \<open>v or w\<close>.\<close>

fun truthy :: "pyval \<Rightarrow> bool" where
  "truthy PNone = False"
| "truthy (PBool b) = b"
| "truthy (PInt i) = (i \<noteq> 0)"
| "truthy (PStr s) = (s \<noteq> [])"
| "truthy (PList xs) = (xs \<noteq> [])"
| "truthy (PDict d) = (d \<noteq> [])"

definition py_or :: "pyval \<Rightarrow> pyval \<Rightarrow> pyval" where
  "py_or v w = (if truthy v then v else w)"

text \<open>\<open>d.get(k, dflt)\<close> on a dictionary, and on a value that may not be one.\<close>

definition py_get :: "pydict \<Rightarrow> string \<Rightarrow> pyval \<Rightarrow> pyval" where
  "py_get d k dflt = (case map_of d k of None \<Rightarrow> dflt | Some v \<Rightarrow> v)"

definition attr_get :: "pyval \<Rightarrow> string \<Rightarrow> pyval \<Rightarrow> error + pyval" where
  "attr_get v k dflt = (case v of PDict d \<Rightarrow> Inr (py_get d k dflt) | _ \<Rightarrow> Inl AttributeError)"

text \<open>\<open>d[k] = v\<close>: the binding is replaced in place, a new key goes to the end.\<close>

fun py_set :: "pydict \<Rightarrow> string \<Rightarrow> pyval \<Rightarrow> pydict" where
  "py_set [] k v = [(k, v)]"
| "py_set ((k', v') # d) k v = (if k' = k then (k, v) # d else (k', v') # py_set d k v)"

text \<open>Iteration (\<open>for x in v\<close>): a list gives its elements, a dictionary its keys, a
  string its characters; the other values are not iterable.\<close>

definition py_iter :: "pyval \<Rightarrow> error + pyval list" where
  "py_iter v = (case v of
      PList xs \<Rightarrow> Inr xs
    | PDict d \<Rightarrow> Inr (map (\<lambda>kv. PStr (fst kv)) d)
    | PStr s \<Rightarrow> Inr (map (\<lambda>c. PStr [c]) s)
    | _ \<Rightarrow> Inl TypeError)"

subsection \<open>Strings\<close>

definition upper_letters :: string where
  "upper_letters = ''ABCDEFGHIJKLMNOPQRSTUVWXYZ''"

definition lower_letters :: string where
  "lower_letters = ''abcdefghijklmnopqrstuvwxyz''"

definition is_upper :: "char \<Rightarrow> bool" where
  "is_upper c = (c \<in> set upper_letters)"

definition lower_char :: "char \<Rightarrow> char" where
  "lower_char c = (case map_of (zip upper_letters lower_letters) c of None \<Rightarrow> c | Some l \<Rightarrow> l)"

definition py_lower :: "string \<Rightarrow> string" where
  "py_lower s = map lower_char s"

definition is_space :: "char \<Rightarrow> bool" where
  "is_space c = (c \<in> set [CHR 0x09, CHR 0x0A, CHR 0x0B, CHR 0x0C, CHR 0x0D,
                           CHR 0x1C, CHR 0x1D, CHR 0x1E, CHR 0x1F, CHR 0x20])"

definition py_strip :: "string \<Rightarrow> string" where
  "py_strip s = rev (dropWhile is_space (rev (dropWhile is_space s)))"

text \<open>\<open>s.split()\<close>: the maximal runs of characters that are not whitespace.\<close>

fun split_acc :: "string \<Rightarrow> string \<Rightarrow> string list" where
  "split_acc w [] = (if w = [] then [] else [w])"
| "split_acc w (c # cs) =
     (if is_space c then (if w = [] then split_acc [] cs else w # split_acc [] cs)
      else split_acc (w @ [c]) cs)"

definition py_split :: "string \<Rightarrow> string list" where
  "py_split s = split_acc [] s"

text \<open>\<open>sep.join(xs)\<close> on strings.\<close>

fun join_str :: "string \<Rightarrow> string list \<Rightarrow> string" where
  "join_str sep [] = []"
| "join_str sep [x] = x"
| "join_str sep (x # y # ys) = x @ sep @ join_str sep (y # ys)"

text \<open>\<open>s.replace(old, new)\<close>: every occurrence, left to right, without overlap.\<close>

function py_replace :: "string \<Rightarrow> string \<Rightarrow> string \<Rightarrow> string" where
  "py_replace old new s =
     (if old = [] then new @ concat (map (\<lambda>c. c # new) s)
      else if s = [] then []
      else if prefix old s then new @ py_replace old new (drop (length old) s)
      else hd s # py_replace old new (tl s))"
  by pat_completeness auto
termination
  by (relation "measure (\<lambda>(old, new, s). length s)") auto

declare py_replace.simps [simp del]

text \<open>\<open>s.zfill(width)\<close>: zeros on the left, after a leading sign.\<close>

definition zfill :: "nat \<Rightarrow> string \<Rightarrow> string" where
  "zfill width s =
     (if width \<le> length s then s
      else if s \<noteq> [] \<and> (hd s = CHR ''+'' \<or> hd s = CHR ''-'')
           then hd s # replicate (width - length s) CHR ''0'' @ tl s
      else replicate (width - length s) CHR ''0'' @ s)"

subsection \<open>\<open>str\<close> and \<open>repr\<close>\<close>

definition digit_char :: "nat \<Rightarrow> char" where
  "digit_char n = ''0123456789abcdef'' ! n"

fun str_nat :: "nat \<Rightarrow> string" where
  "str_nat n = (if n < 10 then [digit_char n] else str_nat (n div 10) @ [digit_char (n mod 10)])"

declare str_nat.simps [simp del]

definition str_int :: "int \<Rightarrow> string" where
  "str_int i = (if i < 0 then CHR ''-'' # str_nat (nat (- i)) else str_nat (nat i))"

definition repr_char :: "char \<Rightarrow> char \<Rightarrow> string" where
  "repr_char q c =
     (if c = CHR 0x5C then [CHR 0x5C, CHR 0x5C]
      else if c = q then [CHR 0x5C, q]
      else if c = CHR 0x09 then [CHR 0x5C, CHR ''t'']
      else if c = CHR 0x0A then [CHR 0x5C, CHR ''n'']
      else if c = CHR 0x0D then [CHR 0x5C, CHR ''r'']
      else if (of_char c :: nat) < 32 \<or> (of_char c :: nat) = 127
           then [CHR 0x5C, CHR ''x'', digit_char (of_char c div 16), digit_char (of_char c mod 16)]
      else [c])"

definition repr_str :: "string \<Rightarrow> string" where
  "repr_str s =
     (let q = (if CHR 0x27 \<in> set s \<and> CHR 0x22 \<notin> set s then CHR 0x22 else CHR 0x27)
      in q # concat (map (repr_char q) s) @ [q])"

fun py_repr :: "pyval \<Rightarrow> string" where
  "py_repr PNone = ''None''"
| "py_repr (PBool b) = (if b then ''True'' else ''False'')"
| "py_repr (PInt i) = str_int i"
| "py_repr (PStr s) = repr_str s"
| "py_repr (PList xs) = ''['' @ join_str '', '' (map py_repr xs) @ '']''"
| "py_repr (PDict d) =
     ''{'' @ join_str '', '' (map (\<lambda>kv. repr_str (fst kv) @ '': '' @ py_repr (snd kv)) d) @ ''}''"

definition py_str :: "pyval \<Rightarrow> string" where
  "py_str v = (case v of PStr s \<Rightarrow> s | _ \<Rightarrow> py_repr v)"

section \<open>Normalizer (linkedin\_data\_fetcher.py)\<close>

text \<open>\<open>format_date\<close>: the provider's date dictionary as a string.\<close>

definition format_date :: "pyval \<Rightarrow> error + string" where
  "format_date date_dict =
     (if \<not> truthy date_dict then Inr ''Present''
      else case date_dict of
        PDict d \<Rightarrow>
          (let month = zfill 2 (py_str (py_get d ''month'' (PStr '''')));
               year = py_str (py_get d ''year'' (PStr ''''))
           in Inr (if month \<noteq> [] \<and> year \<noteq> [] then month @ ''/'' @ year else ''N/A''))
      | _ \<Rightarrow> Inl AttributeError)"

text \<open>Sequencing of fallible steps: the first exception raised ends the computation.\<close>

fun bind_err :: "error + 'a \<Rightarrow> ('a \<Rightarrow> error + 'b) \<Rightarrow> error + 'b" where
  "bind_err (Inl e) f = Inl e"
| "bind_err (Inr x) f = f x"

text \<open>A \<open>for\<close> loop that appends one entry per element, left to right.\<close>

fun map_err :: "('a \<Rightarrow> error + 'b) \<Rightarrow> 'a list \<Rightarrow> error + 'b list" where
  "map_err f [] = Inr []"
| "map_err f (x # xs) = bind_err (f x) (\<lambda>y. bind_err (map_err f xs) (\<lambda>ys. Inr (y # ys)))"

text \<open>\<open>", ".join(v)\<close>: every element of the iterable must be a string.\<close>

fun is_str :: "pyval \<Rightarrow> bool" where
  "is_str (PStr s) = True"
| "is_str v = False"

definition py_join :: "string \<Rightarrow> pyval \<Rightarrow> error + string" where
  "py_join sep v =
     bind_err (py_iter v) (\<lambda>xs.
       if list_all is_str xs then Inr (join_str sep (map py_str xs)) else Inl TypeError)"

text \<open>The body of \<open>fetch_linkedin_data\<close> after the response has been decoded
  (\<open>data = response.json()\<close>): one education entry, one experience entry, the record.\<close>

definition education_entry :: "pyval \<Rightarrow> error + pyval" where
  "education_entry edu =
     bind_err (attr_get edu ''school'' (PStr '''')) (\<lambda>school.
     bind_err (attr_get edu ''degree_name'' (PStr '''')) (\<lambda>degree_name.
     bind_err (attr_get edu ''field_of_study'' (PStr '''')) (\<lambda>field_of_study.
     bind_err (attr_get edu ''starts_at'' PNone) (\<lambda>starts_at.
     bind_err (format_date starts_at) (\<lambda>start_date.
     bind_err (attr_get edu ''ends_at'' PNone) (\<lambda>ends_at.
     bind_err (format_date ends_at) (\<lambda>end_date.
     Inr (PDict
       [(''institution_name'', school),
        (''degree'', degree_name),
        (''field_of_study'', field_of_study),
        (''start_date'', PStr start_date),
        (''end_date'', PStr end_date)]))))))))"

definition experience_entry :: "pyval \<Rightarrow> error + pyval" where
  "experience_entry exp =
     bind_err (attr_get exp ''title'' PNone) (\<lambda>title.
     bind_err (attr_get exp ''company'' PNone) (\<lambda>company.
     bind_err (attr_get exp ''location'' PNone) (\<lambda>location.
     bind_err (attr_get exp ''description'' PNone) (\<lambda>description.
     bind_err (attr_get exp ''starts_at'' PNone) (\<lambda>starts_at.
     bind_err (format_date starts_at) (\<lambda>start_date.
     bind_err (attr_get exp ''ends_at'' PNone) (\<lambda>ends_at.
     bind_err (format_date ends_at) (\<lambda>end_date.
     Inr (PDict
       [(''title'', PStr (py_str (py_or title (PStr '''')))),
        (''company'', PStr (py_str (py_or company (PStr '''')))),
        (''location'', PStr (py_str (py_or location (PStr '''')))),
        (''description'', PStr (py_str (py_or description (PStr '''')))),
        (''start_date'', PStr start_date),
        (''end_date'', PStr end_date)])))))))))"

definition normalize_body :: "pyval \<Rightarrow> error + pyval" where
  "normalize_body data =
     (case data of
        PDict d \<Rightarrow>
          bind_err (py_join '', '' (py_get d ''skills'' (PList []))) (\<lambda>skills.
          bind_err (py_iter (py_get d ''education'' (PList []))) (\<lambda>education.
          bind_err (map_err education_entry education) (\<lambda>educations.
          bind_err (py_iter (py_get d ''experiences'' (PList []))) (\<lambda>exps.
          bind_err (map_err experience_entry exps) (\<lambda>experiences.
          Inr (PDict
            [(''full_name'', py_get d ''full_name'' (PStr ''Unknown Name'')),
             (''public_identifier'', py_get d ''public_identifier'' (PStr '''')),
             (''profile_pic_url'', py_get d ''profile_pic_url'' (PStr '''')),
             (''headline'', py_get d ''headline'' (PStr '''')),
             (''summary'', py_get d ''summary'' (PStr '''')),
             (''country'', py_get d ''country_full_name'' (PStr '''')),
             (''city'', py_get d ''city'' (PStr '''')),
             (''email'', py_get d ''personal_email'' (PStr '''')),
             (''contact_number'', py_get d ''personal_contact_number'' (PStr '''')),
             (''github'', py_get d ''github_profile_id'' (PStr '''')),
             (''twitter'', py_get d ''twitter_profile_id'' (PStr '''')),
             (''facebook'', py_get d ''facebook_profile_id'' (PStr '''')),
             (''skills'', PStr skills),
             (''connections'', py_get d ''connections'' (PInt 0)),
             (''languages'', py_get d ''languages'' (PList [])),
             (''follower_count'', py_get d ''follower_count'' (PInt 0)),
             (''industry'', py_get d ''industry'' (PStr '''')),
             (''certifications'', py_get d ''certifications'' (PList [])),
             (''educations'', PList educations),
             (''experiences'', PList experiences)]))))))
      | _ \<Rightarrow> Inl AttributeError)"

text \<open>\<open>fetch_linkedin_data\<close> answers \<open>None\<close> when anything in that body raises. As a
  function of the decoded response this is the normalization step of the pipeline.\<close>

definition normalize_profile :: "pyval \<Rightarrow> pyval" where
  "normalize_profile data = (case normalize_body data of Inl e \<Rightarrow> PNone | Inr r \<Rightarrow> r)"

text \<open>The field of a record (\<open>r.get(k)\<close>); \<open>None\<close> when \<open>r\<close> has no such field.\<close>

definition field :: "pyval \<Rightarrow> string \<Rightarrow> pyval" where
  "field r k = (case r of PDict d \<Rightarrow> py_get d k PNone | _ \<Rightarrow> PNone)"

section \<open>Signal classifiers\<close>

text \<open>\<open>experiences[0]\<close> on the value of \<open>profile_data.get('experiences', [])\<close>, once it
  is known to be truthy: a list gives its first element, a string its first character, a
  dictionary has no key \<open>0\<close>, the other values cannot be subscripted.\<close>

definition py_first :: "pyval \<Rightarrow> error + pyval" where
  "py_first v = (case v of
      PList xs \<Rightarrow> (case xs of [] \<Rightarrow> Inl IndexError | x # _ \<Rightarrow> Inr x)
    | PStr s \<Rightarrow> (case s of [] \<Rightarrow> Inl IndexError | c # _ \<Rightarrow> Inr (PStr [c]))
    | PDict d \<Rightarrow> Inl KeyError
    | _ \<Rightarrow> Inl TypeError)"

text \<open>\<open>v.lower()\<close> on a value that may not be a string.\<close>

definition attr_lower :: "pyval \<Rightarrow> error + string" where
  "attr_lower v = (case v of PStr s \<Rightarrow> Inr (py_lower s) | _ \<Rightarrow> Inl AttributeError)"

subsection \<open>Leadership (leadership\_detector.py)\<close>

definition exact_keywords :: "string list" where
  "exact_keywords =
     [''executive'', ''exec'', ''director'', ''manager'', ''lead'', ''head'',
      ''chief'', ''ceo'', ''cfo'', ''cto'', ''coo'', ''vp'', ''president'', ''chair'',
      ''supervisor'', ''founder'']"

definition fuzzy_keywords :: "string list" where
  "fuzzy_keywords =
     [''department head'',
      ''executive director'', ''managing director'', ''senior manager'',
      ''vice president'', ''general manager'', ''regional manager'']"

text \<open>The line that is meant to put a space before each capital letter but the first:
  \<open>''.join([' ' + c if c.isupper() and i > 0 else c for i, c in enumerate(title)]).strip()\<close>.\<close>

definition space_capitals :: "string \<Rightarrow> string" where
  "space_capitals title =
     py_strip (concat (map (\<lambda>ic. if is_upper (snd ic) \<and> 0 < fst ic then [CHR '' '', snd ic]
                                  else [snd ic])
                           (enumerate 0 title)))"

text \<open>The words that \<open>is_leadership_role\<close> looks up in \<open>exact_keywords\<close>, as a function
  of the title stored in the experience entry: the title is lowercased when it is read
  (\<open>latest_exp.get('title', '').lower()\<close>), then passed through the line above, then split.\<close>

definition title_words :: "string \<Rightarrow> string list" where
  "title_words title = py_split (space_capitals (py_lower title))"

text \<open>\<open>process.extract\<close> of the fuzzywuzzy library is not part of the sources; it is the
  parameter \<open>process_extract\<close>, from the query, the choices and the limit to the scored matches.\<close>

type_synonym extractor = "string \<Rightarrow> string list \<Rightarrow> nat \<Rightarrow> (string \<times> int) list"

definition is_leadership_role :: "extractor \<Rightarrow> pydict \<Rightarrow> int \<Rightarrow> error + bool" where
  "is_leadership_role process_extract profile_data similarity_threshold =
     (let experiences = py_get profile_data ''experiences'' (PList [])
      in if \<not> truthy experiences then Inr False
         else
           bind_err (py_first experiences) (\<lambda>latest_exp.
           bind_err (attr_get latest_exp ''title'' (PStr '''')) (\<lambda>t.
           bind_err (attr_lower t) (\<lambda>title.
             let title = space_capitals title;
                 words = py_split title
             in if list_ex (\<lambda>keyword. keyword \<in> set words) exact_keywords then Inr True
                else Inr (list_ex (\<lambda>m. similarity_threshold \<le> snd m)
                            (process_extract title fuzzy_keywords 3))))))"

subsection \<open>Large employers (fortune500.py)\<close>

definition COMPANY_VARIATIONS :: "(string \<times> string) list" where
  "COMPANY_VARIATIONS =
     [(''google'', ''alphabet''),
      (''google inc'', ''alphabet''),
      (''google llc'', ''alphabet''),
      (''youtube'', ''alphabet''),
      (''waymo'', ''alphabet''),
      (''deepmind'', ''alphabet''),
      (''calico'', ''alphabet''),
      (''verily'', ''alphabet''),
      (''meta'', ''meta platforms''),
      (''facebook'', ''meta platforms''),
      (''instagram'', ''meta platforms''),
      (''whatsapp'', ''meta platforms''),
      (''oculus'', ''meta platforms''),
      (''microsoft corporation'', ''microsoft''),
      (''apple inc'', ''apple''),
      (''amazon.com'', ''amazon'')]"

definition suffixes_list :: "string list" where
  "suffixes_list =
     ['' inc'', '' corp'', '' corporation'', '' ltd'', '' llc'',
      '' company'', '' co'', ''.com'', '' group'', '' plc'',
      '' holdings'', '' holding'', '' technologies'', '' technology'']"

definition normalize_company_name :: "pyval \<Rightarrow> error + string" where
  "normalize_company_name name =
     (if \<not> truthy name then Inr ''''
      else
        bind_err (attr_lower name) (\<lambda>lowered.
          let name = py_strip lowered
          in case map_of COMPANY_VARIATIONS name of
               Some parent \<Rightarrow> Inr parent
             | None \<Rightarrow>
                 (case py_split name of
                    [] \<Rightarrow> Inl IndexError
                  | name_simple # _ \<Rightarrow>
                      (case map_of COMPANY_VARIATIONS name_simple of
                         Some parent \<Rightarrow> Inr parent
                       | None \<Rightarrow>
                           Inr (py_strip (foldl (\<lambda>name suffix. py_replace suffix '''' name)
                                                name suffixes_list))))))"

text \<open>The reference set is read from \<open>fortune500_data.json\<close>, which is not part of the
  sources, and \<open>fuzz.ratio\<close> belongs to the fuzzywuzzy library: both are parameters.
  \<open>companies\<close> is \<open>None\<close> when the file cannot be loaded, otherwise the names in the
  order in which the set is iterated. Everything from the loading on is inside
  \<open>try\<close>, where any exception makes the answer \<open>False\<close>; the two reads before it are not.\<close>

definition is_fortune_500 ::
  "string list option \<Rightarrow> (string \<Rightarrow> string \<Rightarrow> int) \<Rightarrow> pydict \<Rightarrow> error + bool" where
  "is_fortune_500 companies ratio profile_data =
     (let experiences = py_get profile_data ''experiences'' (PList [])
      in if \<not> truthy experiences then Inr False
         else
           bind_err (py_first experiences) (\<lambda>latest_exp.
           bind_err (attr_get latest_exp ''company'' (PStr '''')) (\<lambda>company_name.
             if \<not> truthy company_name then Inr False
             else case companies of
                 None \<Rightarrow> Inr False
               | Some cs \<Rightarrow>
                   (case normalize_company_name company_name of
                      Inl e \<Rightarrow> Inr False
                    | Inr normalized_name \<Rightarrow>
                        if normalized_name \<in> set cs then Inr True
                        else Inr (list_ex (\<lambda>fortune_company.
                                     sublist normalized_name fortune_company \<or>
                                     sublist fortune_company normalized_name \<or>
                                     85 < ratio normalized_name fortune_company) cs)))))"

subsection \<open>Entrepreneurs (entrepreneur\_detector.py)\<close>

definition entrepreneur_keywords :: "string list" where
  "entrepreneur_keywords =
     [''founder'', ''co-founder'', ''cofounder'', ''owner'',
      ''entrepreneur'', ''startup'', ''start-up'', ''serial entrepreneur'',
      ''business owner'']"

definition is_entrepreneur :: "pydict \<Rightarrow> error + bool" where
  "is_entrepreneur profile_data =
     (let experiences = py_get profile_data ''experiences'' (PList [])
      in if \<not> truthy experiences then Inr False
         else
           bind_err (py_first experiences) (\<lambda>latest_exp.
           bind_err (attr_get latest_exp ''title'' (PStr '''')) (\<lambda>t.
           bind_err (attr_lower t) (\<lambda>title.
             if list_ex (\<lambda>keyword. sublist keyword title) entrepreneur_keywords then Inr True
             else
               bind_err (attr_get latest_exp ''company'' (PStr '''')) (\<lambda>c.
               bind_err (attr_lower c) (\<lambda>company.
               bind_err (attr_lower (py_get profile_data ''full_name'' (PStr ''''))) (\<lambda>full_name.
                 Inr (full_name \<noteq> [] \<and> sublist full_name company))))))))"

section \<open>Spreadsheet sink (excel\_writer.py)\<close>

text \<open>
  A data frame is its column labels and its rows; a row is a dictionary, and a cell that a
  row does not bind is the missing value. A workbook is the list of its named sheets; the
  file on disk is \<open>None\<close> when it does not exist. Reading and writing the file format
  belongs to pandas; the model keeps the frames as they are.
\<close>

record dataframe =
  columns :: "string list"
  rows :: "pydict list"

type_synonym workbook = "(string \<times> dataframe) list"

definition union_columns :: "string list \<Rightarrow> string list \<Rightarrow> string list" where
  "union_columns a b = a @ filter (\<lambda>c. c \<notin> set a) (remdups b)"

text \<open>\<open>pd.DataFrame(records)\<close>: the columns are the keys in the order in which they
  first appear. \<open>pd.DataFrame()\<close> has no column and no row.\<close>

definition DataFrame :: "pydict list \<Rightarrow> dataframe" where
  "DataFrame records =
     \<lparr>columns = foldl union_columns [] (map (map fst) records), rows = records\<rparr>"

definition empty_frame :: dataframe where
  "empty_frame = \<lparr>columns = [], rows = []\<rparr>"

definition is_empty :: "dataframe \<Rightarrow> bool" where
  "is_empty df = (columns df = [] \<or> rows df = [])"

text \<open>\<open>pd.concat([a, b], ignore_index=True)\<close>.\<close>

definition concat_frames :: "dataframe \<Rightarrow> dataframe \<Rightarrow> dataframe" where
  "concat_frames a b =
     \<lparr>columns = union_columns (columns a) (columns b), rows = rows a @ rows b\<rparr>"

text \<open>\<open>pd.read_excel(xls, sheet)\<close> raises \<open>ValueError\<close> when the workbook has no
  sheet of that name.\<close>

definition read_excel :: "workbook \<Rightarrow> string \<Rightarrow> error + dataframe" where
  "read_excel xls sheet = (case map_of xls sheet of None \<Rightarrow> Inl ValueError | Some df \<Rightarrow> Inr df)"

text \<open>\<open>df[column]\<close> raises \<open>KeyError\<close> when the frame has no such column; otherwise
  it is the column's cells, \<open>None\<close> standing for a missing cell.\<close>

definition column_cells :: "dataframe \<Rightarrow> string \<Rightarrow> error + pyval option list" where
  "column_cells df c =
     (if c \<in> set (columns df) then Inr (map (\<lambda>r. map_of r c) (rows df)) else Inl KeyError)"

text \<open>\<open>existing[~existing['profile_url'].isin(new['profile_url'])]\<close>.\<close>

definition drop_known_urls :: "dataframe \<Rightarrow> dataframe \<Rightarrow> error + dataframe" where
  "drop_known_urls existing_profiles new_profiles_df =
     bind_err (column_cells existing_profiles ''profile_url'') (\<lambda>old_cells.
     bind_err (column_cells new_profiles_df ''profile_url'') (\<lambda>new_cells.
       Inr (existing_profiles
              \<lparr>rows := filter (\<lambda>r. map_of r ''profile_url'' \<notin> set new_cells)
                               (rows existing_profiles)\<rparr>)))"

text \<open>The \<open>try\<close> block of \<open>write_to_excel\<close> up to the writing: the five frames to be
  written. The reads of \<open>Club Experiences\<close> and \<open>Certifications\<close> have a handler of
  their own, the reads of the other three sheets do not.\<close>

definition merged_sheets ::
  "pydict list \<Rightarrow> pydict list \<Rightarrow> pydict list \<Rightarrow> pydict list \<Rightarrow> pydict list \<Rightarrow>
   workbook option \<Rightarrow> bool \<Rightarrow> error + workbook" where
  "merged_sheets profiles educations experiences club_experiences certifications file append_mode =
     (let new_profiles_df = DataFrame profiles;
          new_educations_df = DataFrame educations;
          new_experiences_df = DataFrame experiences;
          new_club_experiences_df = DataFrame club_experiences;
          new_certifications_df = DataFrame certifications
      in case (if append_mode then file else None) of
           Some xls \<Rightarrow>
             bind_err (read_excel xls ''Profiles'') (\<lambda>existing_profiles.
             bind_err (read_excel xls ''Educations'') (\<lambda>existing_educations.
             bind_err (read_excel xls ''Experiences'') (\<lambda>existing_experiences.
               let existing_club_experiences =
                     (case read_excel xls ''Club Experiences'' of
                        Inl e \<Rightarrow> empty_frame | Inr df \<Rightarrow> df);
                   existing_certifications =
                     (case read_excel xls ''Certifications'' of
                        Inl e \<Rightarrow> empty_frame | Inr df \<Rightarrow> df)
               in bind_err
                    (if \<not> is_empty new_profiles_df
                        \<and> ''profile_url'' \<in> set (columns new_profiles_df)
                     then drop_known_urls existing_profiles new_profiles_df
                     else Inr existing_profiles) (\<lambda>existing_profiles.
                  Inr [(''Profiles'', concat_frames existing_profiles new_profiles_df),
                       (''Educations'', concat_frames existing_educations new_educations_df),
                       (''Experiences'', concat_frames existing_experiences new_experiences_df),
                       (''Club Experiences'',
                          concat_frames existing_club_experiences new_club_experiences_df),
                       (''Certifications'',
                          concat_frames existing_certifications new_certifications_df)]))))
         | None \<Rightarrow>
             Inr [(''Profiles'', new_profiles_df),
                  (''Educations'', new_educations_df),
                  (''Experiences'', new_experiences_df),
                  (''Club Experiences'', new_club_experiences_df),
                  (''Certifications'', new_certifications_df)])"

text \<open>\<open>write_to_excel\<close>: the answer (the path of the file, or \<open>None\<close> after an
  exception) and the file afterwards. An exception leaves the file as it was.\<close>

definition write_to_excel ::
  "pydict list \<Rightarrow> pydict list \<Rightarrow> pydict list \<Rightarrow> pydict list \<Rightarrow> pydict list \<Rightarrow>
   string \<Rightarrow> workbook option \<Rightarrow> bool \<Rightarrow> string option \<times> workbook option" where
  "write_to_excel profiles educations experiences club_experiences certifications
                  output_file file append_mode =
     (case merged_sheets profiles educations experiences club_experiences certifications
             file append_mode of
        Inl e \<Rightarrow> (None, file)
      | Inr sheets \<Rightarrow> (Some output_file, Some sheets))"

text \<open>\<open>get_existing_profiles\<close> (linkedin\_data\_fetcher.py): the URLs of the
  \<open>Profiles\<close> sheet, nothing when the file or the sheet or the column is not there.\<close>

definition get_existing_profiles :: "workbook option \<Rightarrow> pyval list" where
  "get_existing_profiles file =
     (case file of
        None \<Rightarrow> []
      | Some xls \<Rightarrow>
          (case bind_err (read_excel xls ''Profiles'') (\<lambda>df. column_cells df ''profile_url'') of
             Inl e \<Rightarrow> []
           | Inr cells \<Rightarrow> concat (map (\<lambda>c. case c of None \<Rightarrow> [] | Some v \<Rightarrow> [v]) cells)))"

section \<open>Relational sink (db\_utils.py)\<close>

text \<open>
  The store holds the five tables. A row of \<open>profiles\<close> has its \<open>profile_id\<close> (an
  integer column that is never null), its \<open>profile_url\<close> and the other columns; the rows
  of the four child tables are dictionaries from column names to values. The surrogate
  \<open>id\<close> columns are left out. Whether the database server accepts a statement is not
  decided by the program: each operation takes, from its environment, whether it raises
  \<open>SQLAlchemyError\<close>.
\<close>

record profile_row =
  row_profile_id :: int
  row_profile_url :: pyval
  row_columns :: pydict

record database =
  profiles :: "profile_row list"
  educations :: "pydict list"
  experiences :: "pydict list"
  club_experiences :: "pydict list"
  certifications :: "pydict list"

text \<open>\<open>get_max_profile_id\<close>: the greatest \<open>profile_id\<close>, 0 for an empty table, and 0
  as well when the query raises.\<close>

definition get_max_profile_id :: "database \<Rightarrow> bool \<Rightarrow> int" where
  "get_max_profile_id db query_raises =
     (if query_raises then 0
      else case profiles db of
             [] \<Rightarrow> 0
           | r # rs \<Rightarrow> fold max (map row_profile_id rs) (row_profile_id r))"

text \<open>\<open>profile_exists\<close>: the \<open>profile_id\<close> of the first row with that URL, \<open>None\<close> when
  there is none, and \<open>None\<close> as well when the query raises.\<close>

definition profile_exists :: "database \<Rightarrow> bool \<Rightarrow> string \<Rightarrow> int option" where
  "profile_exists db query_raises profile_url =
     (if query_raises then None
      else map_option row_profile_id
             (find (\<lambda>r. row_profile_url r = PStr profile_url) (profiles db)))"

text \<open>Where \<open>insert_single_profile\<close> meets an \<open>SQLAlchemyError\<close>: at the query for an
  existing row, at the first \<open>session.commit()\<close>, at the second one, or nowhere.\<close>

datatype insert_fault = NoFault | QueryRaises | FirstCommitRaises | SecondCommitRaises

definition str_field :: "pyval \<Rightarrow> string \<Rightarrow> error + pyval" where
  "str_field r k = bind_err (attr_get r k (PStr '''')) (\<lambda>v. Inr (PStr (py_str v)))"

definition education_row :: "pyval \<Rightarrow> pyval \<Rightarrow> error + pydict" where
  "education_row pid edu =
     bind_err (str_field edu ''institution_name'') (\<lambda>institution_name.
     bind_err (str_field edu ''degree'') (\<lambda>degree.
     bind_err (str_field edu ''field_of_study'') (\<lambda>field_of_study.
     bind_err (str_field edu ''start_date'') (\<lambda>start_date.
     bind_err (str_field edu ''end_date'') (\<lambda>end_date.
     Inr [(''profile_id'', pid),
          (''institution_name'', institution_name),
          (''degree'', degree),
          (''field_of_study'', field_of_study),
          (''start_date'', start_date),
          (''end_date'', end_date)])))))"

definition experience_row :: "pyval \<Rightarrow> pyval \<Rightarrow> error + pydict" where
  "experience_row pid exp =
     bind_err (str_field exp ''title'') (\<lambda>title.
     bind_err (str_field exp ''company'') (\<lambda>company.
     bind_err (str_field exp ''location'') (\<lambda>location.
     bind_err (str_field exp ''description'') (\<lambda>description.
     bind_err (str_field exp ''start_date'') (\<lambda>start_date.
     bind_err (str_field exp ''end_date'') (\<lambda>end_date.
     Inr [(''profile_id'', pid),
          (''title'', title),
          (''company'', company),
          (''location'', location),
          (''description'', description),
          (''start_date'', start_date),
          (''end_date'', end_date)]))))))"

definition club_experience_row :: "pyval \<Rightarrow> pyval \<Rightarrow> error + pydict" where
  "club_experience_row pid club_exp =
     bind_err (str_field club_exp ''club_name'') (\<lambda>club_name.
     bind_err (str_field club_exp ''role'') (\<lambda>role.
     bind_err (str_field club_exp ''description'') (\<lambda>description.
     bind_err (str_field club_exp ''start_date'') (\<lambda>start_date.
     bind_err (str_field club_exp ''end_date'') (\<lambda>end_date.
     bind_err (str_field club_exp ''location'') (\<lambda>location.
     bind_err (str_field club_exp ''position'') (\<lambda>position.
     Inr [(''profile_id'', pid),
          (''club_name'', club_name),
          (''role'', role),
          (''description'', description),
          (''start_date'', start_date),
          (''end_date'', end_date),
          (''location'', location),
          (''position'', position)])))))))"

definition certification_row :: "pyval \<Rightarrow> pyval \<Rightarrow> error + pydict" where
  "certification_row pid cert =
     bind_err (str_field cert ''name'') (\<lambda>name.
     bind_err (str_field cert ''issuing_organization'') (\<lambda>issuing_organization.
     bind_err (str_field cert ''issue_date'') (\<lambda>issue_date.
     bind_err (str_field cert ''expiration_date'') (\<lambda>expiration_date.
     bind_err (str_field cert ''credential_id'') (\<lambda>credential_id.
     bind_err (str_field cert ''credential_url'') (\<lambda>credential_url.
     Inr [(''profile_id'', pid),
          (''name'', name),
          (''issuing_organization'', issuing_organization),
          (''issue_date'', issue_date),
          (''expiration_date'', expiration_date),
          (''credential_id'', credential_id),
          (''credential_url'', credential_url)]))))))"

definition profile_columns :: "string list" where
  "profile_columns =
     [''profile_pic_url'', ''full_name'', ''headline'', ''summary'', ''country'', ''city'',
      ''email'', ''contact_number'', ''github'', ''twitter'', ''facebook'', ''skills'',
      ''connections'', ''languages'', ''follower_count'', ''industry'']"

text \<open>The \<open>Profile(...)\<close> object of \<open>insert_single_profile\<close>. The server refuses a
  \<open>profile_id\<close> that is not an integer when the row is flushed, at the first commit.\<close>

definition new_profile_row :: "pydict \<Rightarrow> profile_row option" where
  "new_profile_row profile_data =
     (case py_get profile_data ''profile_id'' PNone of
        PInt i \<Rightarrow>
          Some \<lparr>row_profile_id = i,
                row_profile_url = py_get profile_data ''profile_url'' PNone,
                row_columns =
                  map (\<lambda>c. (c, py_get profile_data c PNone)) profile_columns @
                  [(''fortune_500'', PBool (truthy (py_get profile_data ''fortune_500'' (PInt 0)))),
                   (''entrepreneur'', PBool (truthy (py_get profile_data ''entrepreneur'' (PInt 0)))),
                   (''leadership_role'',
                      PBool (truthy (py_get profile_data ''leadership_role'' (PInt 0))))]\<rparr>
      | _ \<Rightarrow> None)"

text \<open>\<open>insert_single_profile\<close>: the answer (\<open>True\<close>, \<open>False\<close>, or an exception that is
  no \<open>SQLAlchemyError\<close> and leaves the function) and the store afterwards. What has been
  committed stays; \<open>session.rollback()\<close> undoes what has been added since the last commit.\<close>

definition insert_single_profile ::
  "database \<Rightarrow> insert_fault \<Rightarrow> pydict \<Rightarrow> pyval list \<Rightarrow> pyval list \<Rightarrow> pyval list \<Rightarrow> pyval list \<Rightarrow>
   (error + bool) \<times> database" where
  "insert_single_profile db fault profile_data educations_data experiences_data
                         club_experiences_data certifications_data =
     (if fault = QueryRaises then (Inr False, db)
      else if find (\<lambda>r. row_profile_url r = py_get profile_data ''profile_url'' PNone)
                   (profiles db) \<noteq> None
      then (Inr False, db)
      else
        let pid = py_get profile_data ''profile_id'' PNone
        in case map_err (education_row pid) educations_data of
             Inl e \<Rightarrow> (Inl e, db)
           | Inr edu_rows \<Rightarrow>
         (case map_err (experience_row pid) experiences_data of
             Inl e \<Rightarrow> (Inl e, db)
           | Inr exp_rows \<Rightarrow>
         (case map_err (club_experience_row pid) club_experiences_data of
             Inl e \<Rightarrow> (Inl e, db)
           | Inr club_rows \<Rightarrow>
         (case (if fault = FirstCommitRaises then None else new_profile_row profile_data) of
             None \<Rightarrow> (Inr False, db)
           | Some db_profile \<Rightarrow>
               let db1 = db\<lparr>profiles := profiles db @ [db_profile],
                            educations := educations db @ edu_rows,
                            experiences := experiences db @ exp_rows,
                            club_experiences := club_experiences db @ club_rows\<rparr>
               in (case map_err (certification_row pid) certifications_data of
                     Inl e \<Rightarrow> (Inl e, db1)
                   | Inr cert_rows \<Rightarrow>
                       if fault = SecondCommitRaises then (Inr False, db1)
                       else (Inr True,
                             db1\<lparr>certifications := certifications db1 @ cert_rows\<rparr>))))))"

section \<open>Batch processing (linkedin\_data\_fetcher.py)\<close>

text \<open>One entry of the list that \<open>process_excel_file\<close> returns: the URL is a string
  there, the other cells are whatever the sheet holds.\<close>

record profile_meta =
  url :: string
  name :: pyval
  batch :: pyval
  program :: pyval
  gender :: pyval
  graduation_year :: pyval
  admission_year :: pyval

text \<open>What the world outside does while one profile is processed: whether the query of
  \<open>profile_exists\<close> raises, the decoded response of the provider (\<open>None\<close> when the
  request fails), and where \<open>insert_single_profile\<close> meets a database error.\<close>

record step_env =
  exists_raises :: bool
  response :: "pyval option"
  insert_fault :: insert_fault

text \<open>What the classifiers take from outside the sources.\<close>

record externals =
  process_extract :: extractor
  companies :: "string list option"
  ratio :: "string \<Rightarrow> string \<Rightarrow> int"

text \<open>\<open>fetch_linkedin_data\<close>; \<open>PNone\<close> is the answer \<open>None\<close>.\<close>

definition fetch_linkedin_data :: "pyval option \<Rightarrow> string \<Rightarrow> pyval" where
  "fetch_linkedin_data resp linkedin_url =
     (if \<not> sublist ''/in/'' linkedin_url then PNone
      else case resp of None \<Rightarrow> PNone | Some data \<Rightarrow> normalize_profile data)"

text \<open>\<open>v[k] = w\<close> on a value that may not be a dictionary.\<close>

definition set_item :: "pyval \<Rightarrow> string \<Rightarrow> pyval \<Rightarrow> error + pyval" where
  "set_item v k w = (case v of PDict d \<Rightarrow> Inr (PDict (py_set d k w)) | _ \<Rightarrow> Inl TypeError)"

definition club_keywords :: "string list" where
  "club_keywords = [''club'', ''society'', ''association'', ''committee'', ''chapter'']"

text \<open>The loop over the experiences: every entry gets the \<open>profile_id\<close>; an entry whose
  company or title contains a club keyword is rewritten as a club experience. The answer
  pairs each entry, as it stands in \<open>profile_data\<close> afterwards, with the club experience
  made from it, if any.\<close>

definition split_experience :: "int \<Rightarrow> pyval \<Rightarrow> error + pyval \<times> pyval option" where
  "split_experience current_profile_id experience =
     bind_err (set_item experience ''profile_id'' (PInt current_profile_id)) (\<lambda>experience.
     bind_err (attr_get experience ''company'' PNone) (\<lambda>c.
     bind_err (attr_get experience ''title'' PNone) (\<lambda>t.
       let company = py_str (py_or c (PStr ''''));
           title = py_str (py_or t (PStr ''''));
           company_lower = py_lower company;
           title_lower = py_lower title;
           is_club = list_ex (\<lambda>keyword. sublist keyword company_lower \<or>
                                         sublist keyword title_lower) club_keywords
       in if is_club then
            bind_err (attr_get experience ''description'' PNone) (\<lambda>description.
            bind_err (attr_get experience ''start_date'' PNone) (\<lambda>start_date.
            bind_err (attr_get experience ''end_date'' PNone) (\<lambda>end_date.
            bind_err (attr_get experience ''location'' PNone) (\<lambda>location.
              Inr (experience,
                   Some (PDict
                     [(''profile_id'', PInt current_profile_id),
                      (''club_name'', PStr company),
                      (''role'', PStr title),
                      (''description'', PStr (py_str (py_or description (PStr '''')))),
                      (''start_date'', PStr (py_str (py_or start_date (PStr '''')))),
                      (''end_date'', PStr (py_str (py_or end_date (PStr '''')))),
                      (''location'', PStr (py_str (py_or location (PStr '''')))),
                      (''position'', PStr '''')]))))))
          else Inr (experience, None))))"

definition certification_data :: "int \<Rightarrow> pyval \<Rightarrow> error + pyval" where
  "certification_data current_profile_id certification =
     bind_err (attr_get certification ''name'' (PStr '''')) (\<lambda>name.
     bind_err (attr_get certification ''issuing_organization'' (PStr '''')) (\<lambda>issuing_organization.
     bind_err (attr_get certification ''issue_date'' PNone) (\<lambda>issue.
     bind_err (format_date issue) (\<lambda>issue_date.
     bind_err (attr_get certification ''expiration_date'' PNone) (\<lambda>expiration.
     bind_err (format_date expiration) (\<lambda>expiration_date.
     bind_err (attr_get certification ''credential_id'' (PStr '''')) (\<lambda>credential_id.
     bind_err (attr_get certification ''credential_url'' (PStr '''')) (\<lambda>credential_url.
     Inr (PDict
       [(''profile_id'', PInt current_profile_id),
        (''name'', name),
        (''issuing_organization'', issuing_organization),
        (''issue_date'', PStr issue_date),
        (''expiration_date'', PStr expiration_date),
        (''credential_id'', credential_id),
        (''credential_url'', credential_url)])))))))))"

text \<open>Everything between the assignment of the identifier and the call of
  \<open>insert_single_profile\<close>: the record to be stored and its four lists of children.\<close>

record prepared =
  prep_profile :: pydict
  prep_educations :: "pyval list"
  prep_experiences :: "pyval list"
  prep_club_experiences :: "pyval list"
  prep_certifications :: "pyval list"

definition prepare_profile ::
  "externals \<Rightarrow> profile_meta \<Rightarrow> int \<Rightarrow> pydict \<Rightarrow> error + prepared" where
  "prepare_profile ext profile_meta current_profile_id fetched =
     (let pd = py_set fetched ''profile_id'' (PInt current_profile_id);
          pd = py_set pd ''profile_url'' (PStr (url profile_meta));
          pd = py_set pd ''admission_year'' (admission_year profile_meta);
          pd = py_set pd ''graduation_year'' (graduation_year profile_meta);
          pd = py_set pd ''program'' (program profile_meta);
          pd = py_set pd ''gender'' (gender profile_meta);
          pd = py_set pd ''batch'' (batch profile_meta)
      in bind_err (is_leadership_role (process_extract ext) pd 65) (\<lambda>leadership.
           let pd = py_set pd ''leadership_role'' (PBool leadership)
           in bind_err (is_fortune_500 (companies ext) (ratio ext) pd) (\<lambda>fortune.
           let pd = py_set pd ''fortune_500'' (PBool fortune)
           in bind_err (is_entrepreneur pd) (\<lambda>entrepreneur.
           let pd = py_set pd ''entrepreneur'' (PBool entrepreneur)
           in bind_err (py_iter (py_get pd ''educations'' (PList []))) (\<lambda>educations.
              bind_err (map_err (\<lambda>education. set_item education ''profile_id''
                                     (PInt current_profile_id)) educations)
                (\<lambda>current_educations.
           let pd = (if educations = [] then pd
                     else py_set pd ''educations'' (PList current_educations))
           in bind_err (py_iter (py_get pd ''experiences'' (PList []))) (\<lambda>exps.
              bind_err (map_err (split_experience current_profile_id) exps) (\<lambda>split.
           let pd = (if exps = [] then pd else py_set pd ''experiences'' (PList (map fst split)));
               current_experiences =
                 concat (map (\<lambda>s. case snd s of None \<Rightarrow> [fst s] | Some c \<Rightarrow> []) split);
               current_club_experiences =
                 concat (map (\<lambda>s. case snd s of None \<Rightarrow> [] | Some c \<Rightarrow> [c]) split)
           in bind_err (py_iter (py_get pd ''certifications'' (PList []))) (\<lambda>certs.
              bind_err (map_err (certification_data current_profile_id) certs)
                (\<lambda>current_certifications.
              Inr \<lparr>prep_profile = pd,
                   prep_educations = current_educations,
                   prep_experiences = current_experiences,
                   prep_club_experiences = current_club_experiences,
                   prep_certifications = current_certifications\<rparr>))))))))))"

text \<open>The state of the loop: the store, the in-memory high-water mark, the five result
  lists. \<open>assigned\<close> is a history variable that the source does not have: the value of
  \<open>current_profile_id\<close> of every iteration that reached the assignment, with its URL, in
  the order of the iterations.\<close>

record loop_state =
  db :: database
  max_profile_id :: int
  profiles_data :: "pyval list"
  educations_data :: "pyval list"
  experiences_data :: "pyval list"
  club_experiences_data :: "pyval list"
  certifications_data :: "pyval list"
  assigned :: "(string \<times> int) list"

text \<open>One iteration of the loop of \<open>batch_process_excel\<close>. The answer is the exception
  that leaves the loop, if any, and the state.\<close>

definition process_profile ::
  "externals \<Rightarrow> loop_state \<Rightarrow> profile_meta \<times> step_env \<Rightarrow> error option \<times> loop_state" where
  "process_profile ext st pe =
     (let profile_meta = fst pe; env = snd pe;
          existing_id = profile_exists (db st) (exists_raises env) (url profile_meta)
      in if existing_id \<noteq> None \<and> existing_id \<noteq> Some 0 then (None, st)
         else
           let profile_data = fetch_linkedin_data (response env) (url profile_meta)
           in if \<not> truthy profile_data then (None, st)
              else
                let current_profile_id = max_profile_id st + 1;
                    st = st\<lparr>max_profile_id := current_profile_id,
                            assigned := assigned st @ [(url profile_meta, current_profile_id)]\<rparr>
                in case profile_data of
                     PDict fetched \<Rightarrow>
                       (case prepare_profile ext profile_meta current_profile_id fetched of
                          Inl e \<Rightarrow> (Some e, st)
                        | Inr p \<Rightarrow>
                            (case insert_single_profile (db st) (insert_fault env)
                                    (prep_profile p) (prep_educations p) (prep_experiences p)
                                    (prep_club_experiences p) (prep_certifications p) of
                               (Inl e, db') \<Rightarrow> (Some e, st\<lparr>db := db'\<rparr>)
                             | (Inr True, db') \<Rightarrow>
                                 (None,
                                  st\<lparr>db := db',
                                     profiles_data := profiles_data st @ [PDict (prep_profile p)],
                                     educations_data := educations_data st @ prep_educations p,
                                     experiences_data := experiences_data st @ prep_experiences p,
                                     club_experiences_data :=
                                       club_experiences_data st @ prep_club_experiences p,
                                     certifications_data :=
                                       certifications_data st @ prep_certifications p\<rparr>)
                             | (Inr False, db') \<Rightarrow> (None, st\<lparr>db := db'\<rparr>)))
                   | _ \<Rightarrow> (Some TypeError, st))"

fun batch_loop ::
  "externals \<Rightarrow> loop_state \<Rightarrow> (profile_meta \<times> step_env) list \<Rightarrow> error option \<times> loop_state" where
  "batch_loop ext st [] = (None, st)"
| "batch_loop ext st (pe # rest) =
     (case process_profile ext st pe of
        (Some e, st') \<Rightarrow> (Some e, st')
      | (None, st') \<Rightarrow> batch_loop ext st' rest)"

text \<open>The state in which the loop is entered: the store as it is, the high-water mark
  that was read, empty result lists.\<close>

definition initial_state :: "database \<Rightarrow> int \<Rightarrow> loop_state" where
  "initial_state store high_water_mark =
     \<lparr>db = store,
      max_profile_id = high_water_mark,
      profiles_data = [], educations_data = [], experiences_data = [],
      club_experiences_data = [], certifications_data = [],
      assigned = []\<rparr>"

text \<open>\<open>batch_process_excel\<close>, from the list that \<open>process_excel_file\<close> returned. Each
  profile comes with what the world does when its turn comes. \<open>connects\<close> tells whether
  \<open>DatabaseManager()\<close> can be constructed, \<open>max_raises\<close> whether the query of
  \<open>get_max_profile_id\<close> raises. The early returns give four empty lists, the return
  after the loop the five result lists.\<close>

datatype batch_result =
    EarlyReturn
  | Completed loop_state
  | Raised error loop_state

definition batch_process_excel ::
  "externals \<Rightarrow> (profile_meta \<times> step_env) list \<Rightarrow> int option \<Rightarrow> workbook option \<Rightarrow>
   bool \<Rightarrow> bool \<Rightarrow> database \<Rightarrow> batch_result" where
  "batch_process_excel ext profiles_list limit output_file connects max_raises store =
     (if profiles_list = [] then EarlyReturn
      else
        let existing_profiles = get_existing_profiles output_file;
            new_profiles = filter (\<lambda>p. PStr (url (fst p)) \<notin> set existing_profiles) profiles_list
        in if new_profiles = [] then EarlyReturn
           else
             let new_profiles =
                   (case limit of
                      None \<Rightarrow> new_profiles
                    | Some l \<Rightarrow> if 0 < l then take (nat l) new_profiles else new_profiles)
             in if \<not> connects then EarlyReturn
                else
                  let st = initial_state store (get_max_profile_id store max_raises)
                  in case batch_loop ext st new_profiles of
                       (None, st') \<Rightarrow> Completed st'
                     | (Some e, st') \<Rightarrow> Raised e st')"

text \<open>Whether the batch reached its last \<open>return\<close>.\<close>

fun is_completed :: "batch_result \<Rightarrow> bool" where
  "is_completed (Completed st) = True"
| "is_completed r = False"

text \<open>The state of the loop when the batch returned after the loop or was left by an
  exception inside it.\<close>

fun result_state :: "batch_result \<Rightarrow> loop_state option" where
  "result_state EarlyReturn = None"
| "result_state (Completed st) = Some st"
| "result_state (Raised e st) = Some st"

section \<open>Example inputs\<close>

text \<open>Concrete inputs at which the functions above are evaluated further down: a store
  without rows, a store that holds one profile with identifier 5, stand-ins for the two
  library functions, a sheet entry, a provider response and an environment.\<close>

definition empty_database :: database where
  "empty_database =
     \<lparr>profiles = [], educations = [], experiences = [], club_experiences = [],
      certifications = []\<rparr>"


definition no_matches :: extractor where
  "no_matches query choices limit = []"

definition zero_ratio :: "string \<Rightarrow> string \<Rightarrow> int" where
  "zero_ratio a b = 0"

definition example_externals :: externals where
  "example_externals =
     \<lparr>process_extract = no_matches, companies = Some [''apple''], ratio = zero_ratio\<rparr>"

definition example_meta :: "string \<Rightarrow> profile_meta" where
  "example_meta u =
     \<lparr>url = u, name = PStr ''Ann Lee'', batch = PStr ''B1'', program = PStr ''MBA'',
      gender = PStr ''F'', graduation_year = PInt 2020, admission_year = PInt 2018\<rparr>"

definition example_response :: pyval where
  "example_response =
     PDict [(''full_name'', PStr ''Ann Lee''),
            (''certifications'', PList [PDict [(''name'', PStr ''PMP'')]]),
            (''education'', PList [PDict [(''school'', PStr ''MIT'')]]),
            (''experiences'',
               PList [PDict [(''title'', PStr ''Engineer''), (''company'', PStr ''Acme'')],
                      PDict [(''title'', PStr ''Member''), (''company'', PStr ''Debate Club'')]])]"

definition example_env :: "insert_fault \<Rightarrow> step_env" where
  "example_env f = \<lparr>exists_raises = False, response = Some example_response, insert_fault = f\<rparr>"

definition ann_url :: string where
  "ann_url = ''https://www.linkedin.com/in/ann''"



section \<open>Auxiliary facts\<close>

lemma bind_err_Inr_iff: "bind_err m f = Inr y \<longleftrightarrow> (\<exists>x. m = Inr x \<and> f x = Inr y)"
  by (cases m) simp_all

lemma map_err_Inr_iff: "map_err f xs = Inr ys \<longleftrightarrow> list_all2 (\<lambda>x y. f x = Inr y) xs ys"
proof (induction xs arbitrary: ys)
  case Nil
  then show ?case by auto
next
  case (Cons x xs)
  then show ?case
    by (cases ys) (auto simp: bind_err_Inr_iff)
qed

lemma py_get_Nil: "py_get [] k dflt = dflt"
  by (simp add: py_get_def)

lemma py_get_Cons: "py_get ((k, v) # e) k' dflt = (if k = k' then v else py_get e k' dflt)"
  by (simp add: py_get_def)


section \<open>Date formatting\<close>






lemma zfill_2_nonempty: "zfill 2 s \<noteq> []"
  by (cases s) (auto simp: zfill_def)







section \<open>Leadership: the words of the title\<close>

lemma lower_char_not_upper: "\<not> is_upper (lower_char c)"
  by (auto simp: is_upper_def lower_char_def upper_letters_def lower_letters_def)

lemma concat_singletons_enumerate:
  "concat (map (\<lambda>ic. [snd ic]) (enumerate n xs)) = xs"
  by (induction xs arbitrary: n) simp_all

lemma space_capitals_lower: "space_capitals (py_lower title) = py_strip (py_lower title)"
proof -
  have "map (\<lambda>ic. if is_upper (snd ic) \<and> 0 < fst ic then [CHR '' '', snd ic] else [snd ic])
            (enumerate 0 (py_lower title))
        = map (\<lambda>ic. [snd ic]) (enumerate 0 (py_lower title))"
  proof (rule map_cong [OF refl])
    fix ic assume "ic \<in> set (enumerate 0 (py_lower title))"
    then have "snd ic \<in> snd ` set (enumerate 0 (py_lower title))"
      by (rule imageI)
    then have "snd ic \<in> set (map snd (enumerate 0 (py_lower title)))"
      by (simp only: set_map)
    then have "snd ic \<in> set (py_lower title)"
      by simp
    then have "\<not> is_upper (snd ic)"
      by (auto simp: py_lower_def lower_char_not_upper)
    then show "(if is_upper (snd ic) \<and> 0 < fst ic then [CHR '' '', snd ic] else [snd ic]) = [snd ic]"
      by simp
  qed
  then show ?thesis
    by (simp only: space_capitals_def concat_singletons_enumerate)
qed

text \<open>
  Claim C9 at the title \<open>SeniorManager\<close>: the title is lowercased before the line that
  looks for capital letters, so that line never finds one. For every title the words
  examined are those of the lowercased title as it stands; for \<open>SeniorManager\<close> the
  only word is \<open>seniormanager\<close>, and neither \<open>senior\<close> nor \<open>manager\<close> is among the
  words.
\<close>

theorem title_words_no_camel_split:
  "title_words title = py_split (py_strip (py_lower title)) \<and>
   title_words ''SeniorManager'' = [''seniormanager''] \<and>
   ''senior'' \<notin> set (title_words ''SeniorManager'') \<and>
   ''manager'' \<notin> set (title_words ''SeniorManager'')"
proof -
  have a: "title_words title = py_split (py_strip (py_lower title))"
    by (simp add: title_words_def space_capitals_lower)
  have b: "title_words ''SeniorManager'' = [''seniormanager'']"
    by code_simp
  show ?thesis using a by (simp add: b)
qed

section \<open>Large employers: the empty normalized name\<close>

lemma list_ex_True: "list_ex (\<lambda>x. True) xs = (xs \<noteq> [])"
  by (cases xs) simp_all

text \<open>
  Claim C10. When the most recent experience has a company name that is not empty and
  that \<open>normalize_company_name\<close> reduces to the empty string, \<open>is_fortune_500\<close>
  answers \<open>True\<close> for every reference set that is loaded and not empty, whatever the
  similarity score is.
\<close>

theorem is_fortune_500_empty_normalized_name:
  assumes "py_get profile_data ''experiences'' (PList []) = PList (PDict latest_exp # older)"
    and "py_get latest_exp ''company'' (PStr '''') = PStr company_name"
    and "company_name \<noteq> []"
    and "normalize_company_name (PStr company_name) = Inr ''''"
    and "cs \<noteq> []"
  shows "is_fortune_500 (Some cs) score profile_data = Inr True"
  using assms
  by (simp add: is_fortune_500_def py_first_def attr_get_def list_ex_True)

text \<open>The theorem at the company name \<open>.com\<close> and a reference set of one name.\<close>

theorem is_fortune_500_empty_normalized_name_witness:
  "normalize_company_name (PStr ''.com'') = Inr '''' \<and>
   is_fortune_500 (Some [''apple'']) (\<lambda>a b. 0)
     [(''full_name'', PStr ''Ann''),
      (''experiences'', PList [PDict [(''title'', PStr ''Engineer''), (''company'', PStr ''.com'')]])]
   = Inr True"
proof -
  have n: "normalize_company_name (PStr ''.com'') = Inr ''''"
    by code_simp
  have "is_fortune_500 (Some [''apple'']) (\<lambda>a b. 0)
     [(''full_name'', PStr ''Ann''),
      (''experiences'', PList [PDict [(''title'', PStr ''Engineer''), (''company'', PStr ''.com'')]])]
   = Inr True"
    by (rule is_fortune_500_empty_normalized_name
          [where latest_exp = "[(''title'', PStr ''Engineer''), (''company'', PStr ''.com'')]"
             and older = "[]" and company_name = "''.com''"])
       (simp_all add: py_get_def n)
  then show ?thesis using n by simp
qed

section \<open>Normalizing twice\<close>

lemma py_join_str: "py_join sep (PStr s) = Inr (join_str sep (map (\<lambda>c. [c]) s))"
proof -
  have a: "list_all is_str (map (\<lambda>c. PStr [c]) s)"
    by (induction s) simp_all
  have b: "map py_str (map (\<lambda>c. PStr [c]) s) = map (\<lambda>c. [c]) s"
    by (simp add: py_str_def comp_def)
  show ?thesis
    unfolding py_join_def py_iter_def using a b by (simp del: map_map)
qed

lemma py_str_or_empty: "py_str (py_or (PStr t) (PStr '''')) = t"
  by (simp add: py_or_def py_str_def)

lemma experience_entry_again:
  assumes "experience_entry r = Inr y"
  shows "\<exists>z. experience_entry y = Inr z \<and>
           field z ''title'' = field y ''title'' \<and>
           field z ''company'' = field y ''company'' \<and>
           field z ''location'' = field y ''location'' \<and>
           field z ''description'' = field y ''description'' \<and>
           field z ''start_date'' = PStr ''Present'' \<and>
           field z ''end_date'' = PStr ''Present''"
proof -
  from assms obtain t c l d sd ed where y:
    "y = PDict [(''title'', PStr t), (''company'', PStr c), (''location'', PStr l),
                (''description'', PStr d), (''start_date'', PStr sd), (''end_date'', PStr ed)]"
    by (auto simp: experience_entry_def bind_err_Inr_iff)
  show ?thesis
    by (simp add: y experience_entry_def attr_get_def py_get_def format_date_def
                  py_str_or_empty field_def)
qed

lemma experiences_again:
  assumes "list_all2 (\<lambda>r y. experience_entry r = Inr y) rs ys"
  shows "\<exists>zs. map_err experience_entry ys = Inr zs \<and>
           list_all2 (\<lambda>y z. field z ''title'' = field y ''title'' \<and>
                            field z ''company'' = field y ''company'' \<and>
                            field z ''location'' = field y ''location'' \<and>
                            field z ''description'' = field y ''description'' \<and>
                            field z ''start_date'' = PStr ''Present'' \<and>
                            field z ''end_date'' = PStr ''Present'') ys zs"
  using assms
proof (induction rs ys rule: list_all2_induct)
  case Nil
  then show ?case by simp
next
  case (Cons r rs y ys)
  from experience_entry_again [OF Cons.hyps(1)] Cons.IH show ?case
    by (auto simp: bind_err_Inr_iff)
qed

lemma normalize_body_shape:
  assumes "normalize_body x = Inr y"
  shows "\<exists>d skills educations rs ys.
           x = PDict d \<and>
           list_all2 (\<lambda>r y. experience_entry r = Inr y) rs ys \<and>
           y = PDict
            [(''full_name'', py_get d ''full_name'' (PStr ''Unknown Name'')),
             (''public_identifier'', py_get d ''public_identifier'' (PStr '''')),
             (''profile_pic_url'', py_get d ''profile_pic_url'' (PStr '''')),
             (''headline'', py_get d ''headline'' (PStr '''')),
             (''summary'', py_get d ''summary'' (PStr '''')),
             (''country'', py_get d ''country_full_name'' (PStr '''')),
             (''city'', py_get d ''city'' (PStr '''')),
             (''email'', py_get d ''personal_email'' (PStr '''')),
             (''contact_number'', py_get d ''personal_contact_number'' (PStr '''')),
             (''github'', py_get d ''github_profile_id'' (PStr '''')),
             (''twitter'', py_get d ''twitter_profile_id'' (PStr '''')),
             (''facebook'', py_get d ''facebook_profile_id'' (PStr '''')),
             (''skills'', PStr skills),
             (''connections'', py_get d ''connections'' (PInt 0)),
             (''languages'', py_get d ''languages'' (PList [])),
             (''follower_count'', py_get d ''follower_count'' (PInt 0)),
             (''industry'', py_get d ''industry'' (PStr '''')),
             (''certifications'', py_get d ''certifications'' (PList [])),
             (''educations'', PList educations),
             (''experiences'', PList ys)]"
proof (cases x)
  case (PDict d)
  with assms show ?thesis
    by (auto simp: normalize_body_def bind_err_Inr_iff map_err_Inr_iff)
qed (use assms in \<open>simp_all add: normalize_body_def\<close>)

lemma normalize_body_again:
  assumes "normalize_body x = Inr y"
  shows "\<exists>z. normalize_body y = Inr z \<and>
     (\<forall>k \<in> set [''full_name'', ''public_identifier'', ''profile_pic_url'', ''headline'',
                 ''summary'', ''city'', ''connections'', ''languages'', ''follower_count'',
                 ''industry'', ''certifications'']. field z k = field y k) \<and>
     (\<forall>k \<in> set [''country'', ''email'', ''contact_number'', ''github'', ''twitter'',
                 ''facebook'']. field z k = PStr '''') \<and>
     field z ''educations'' = PList [] \<and>
     (\<exists>s. field y ''skills'' = PStr s \<and>
          field z ''skills'' = PStr (join_str '', '' (map (\<lambda>c. [c]) s))) \<and>
     (\<exists>ys zs. field y ''experiences'' = PList ys \<and> field z ''experiences'' = PList zs \<and>
          list_all2 (\<lambda>y z. field z ''title'' = field y ''title'' \<and>
                            field z ''company'' = field y ''company'' \<and>
                            field z ''location'' = field y ''location'' \<and>
                            field z ''description'' = field y ''description'' \<and>
                            field z ''start_date'' = PStr ''Present'' \<and>
                            field z ''end_date'' = PStr ''Present'') ys zs)"
proof -
  from normalize_body_shape [OF assms] obtain d skills educations rs ys where
    ys: "list_all2 (\<lambda>r y. experience_entry r = Inr y) rs ys" and
    y: "y = PDict
            [(''full_name'', py_get d ''full_name'' (PStr ''Unknown Name'')),
             (''public_identifier'', py_get d ''public_identifier'' (PStr '''')),
             (''profile_pic_url'', py_get d ''profile_pic_url'' (PStr '''')),
             (''headline'', py_get d ''headline'' (PStr '''')),
             (''summary'', py_get d ''summary'' (PStr '''')),
             (''country'', py_get d ''country_full_name'' (PStr '''')),
             (''city'', py_get d ''city'' (PStr '''')),
             (''email'', py_get d ''personal_email'' (PStr '''')),
             (''contact_number'', py_get d ''personal_contact_number'' (PStr '''')),
             (''github'', py_get d ''github_profile_id'' (PStr '''')),
             (''twitter'', py_get d ''twitter_profile_id'' (PStr '''')),
             (''facebook'', py_get d ''facebook_profile_id'' (PStr '''')),
             (''skills'', PStr skills),
             (''connections'', py_get d ''connections'' (PInt 0)),
             (''languages'', py_get d ''languages'' (PList [])),
             (''follower_count'', py_get d ''follower_count'' (PInt 0)),
             (''industry'', py_get d ''industry'' (PStr '''')),
             (''certifications'', py_get d ''certifications'' (PList [])),
             (''educations'', PList educations),
             (''experiences'', PList ys)]"
    by blast
  from experiences_again [OF ys] obtain zs where
    zs: "map_err experience_entry ys = Inr zs" and
    rel: "list_all2 (\<lambda>y z. field z ''title'' = field y ''title'' \<and>
                            field z ''company'' = field y ''company'' \<and>
                            field z ''location'' = field y ''location'' \<and>
                            field z ''description'' = field y ''description'' \<and>
                            field z ''start_date'' = PStr ''Present'' \<and>
                            field z ''end_date'' = PStr ''Present'') ys zs"
    by blast
  show ?thesis
    unfolding y normalize_body_def
    using rel by (simp add: py_get_Cons py_get_Nil py_join_str py_iter_def zs field_def)
qed

text \<open>
  Claim C8, as the code has it. Normalizing the result of a normalization succeeds. It
  keeps the fields that are read and stored under the same key, and the title, company,
  location and description of every experience. It resets to the empty string the fields
  that are read under the provider's key, empties the educations, joins the characters of
  the skills string with the separator, and gives every experience the dates \<open>Present\<close>.
\<close>

theorem renormalize_fields:
  assumes "normalize_profile x \<noteq> PNone"
  shows "normalize_profile (normalize_profile x) \<noteq> PNone \<and>
     (\<forall>k \<in> set [''full_name'', ''public_identifier'', ''profile_pic_url'', ''headline'',
                 ''summary'', ''city'', ''connections'', ''languages'', ''follower_count'',
                 ''industry'', ''certifications''].
        field (normalize_profile (normalize_profile x)) k = field (normalize_profile x) k) \<and>
     (\<forall>k \<in> set [''country'', ''email'', ''contact_number'', ''github'', ''twitter'',
                 ''facebook''].
        field (normalize_profile (normalize_profile x)) k = PStr '''') \<and>
     field (normalize_profile (normalize_profile x)) ''educations'' = PList [] \<and>
     (\<exists>s. field (normalize_profile x) ''skills'' = PStr s \<and>
          field (normalize_profile (normalize_profile x)) ''skills''
            = PStr (join_str '', '' (map (\<lambda>c. [c]) s))) \<and>
     (\<exists>ys zs. field (normalize_profile x) ''experiences'' = PList ys \<and>
          field (normalize_profile (normalize_profile x)) ''experiences'' = PList zs \<and>
          list_all2 (\<lambda>y z. field z ''title'' = field y ''title'' \<and>
                            field z ''company'' = field y ''company'' \<and>
                            field z ''location'' = field y ''location'' \<and>
                            field z ''description'' = field y ''description'' \<and>
                            field z ''start_date'' = PStr ''Present'' \<and>
                            field z ''end_date'' = PStr ''Present'') ys zs)"
proof -
  from assms obtain y where y: "normalize_body x = Inr y"
    by (auto simp: normalize_profile_def split: sum.splits)
  from normalize_body_again [OF y] obtain z where z: "normalize_body y = Inr z" and
    props: "(\<forall>k \<in> set [''full_name'', ''public_identifier'', ''profile_pic_url'', ''headline'',
                 ''summary'', ''city'', ''connections'', ''languages'', ''follower_count'',
                 ''industry'', ''certifications'']. field z k = field y k) \<and>
     (\<forall>k \<in> set [''country'', ''email'', ''contact_number'', ''github'', ''twitter'',
                 ''facebook'']. field z k = PStr '''') \<and>
     field z ''educations'' = PList [] \<and>
     (\<exists>s. field y ''skills'' = PStr s \<and>
          field z ''skills'' = PStr (join_str '', '' (map (\<lambda>c. [c]) s))) \<and>
     (\<exists>ys zs. field y ''experiences'' = PList ys \<and> field z ''experiences'' = PList zs \<and>
          list_all2 (\<lambda>y z. field z ''title'' = field y ''title'' \<and>
                            field z ''company'' = field y ''company'' \<and>
                            field z ''location'' = field y ''location'' \<and>
                            field z ''description'' = field y ''description'' \<and>
                            field z ''start_date'' = PStr ''Present'' \<and>
                            field z ''end_date'' = PStr ''Present'') ys zs)"
    by blast
  from normalize_body_shape [OF z] have nz: "z \<noteq> PNone"
    by auto
  have n1: "normalize_profile x = y"
    by (simp add: normalize_profile_def y)
  have n2: "normalize_profile y = z"
    by (simp add: normalize_profile_def z)
  show ?thesis
    unfolding n1 n2 using nz props by blast
qed

text \<open>The theorem at a response with a name, a country, two skills and one position.\<close>

theorem renormalize_fields_witness:
  "normalize_profile
     (PDict [(''full_name'', PStr ''Ann''), (''country_full_name'', PStr ''India''),
             (''skills'', PList [PStr ''ab'', PStr ''c'']),
             (''experiences'', PList [PDict [(''title'', PStr ''Engineer'')]])]) \<noteq> PNone \<and>
   field (normalize_profile (normalize_profile
     (PDict [(''full_name'', PStr ''Ann''), (''country_full_name'', PStr ''India''),
             (''skills'', PList [PStr ''ab'', PStr ''c'']),
             (''experiences'', PList [PDict [(''title'', PStr ''Engineer'')]])]))) ''full_name''
     = PStr ''Ann'' \<and>
   field (normalize_profile (normalize_profile
     (PDict [(''full_name'', PStr ''Ann''), (''country_full_name'', PStr ''India''),
             (''skills'', PList [PStr ''ab'', PStr ''c'']),
             (''experiences'', PList [PDict [(''title'', PStr ''Engineer'')]])]))) ''country''
     = PStr ''''"
proof -
  have h: "normalize_profile
     (PDict [(''full_name'', PStr ''Ann''), (''country_full_name'', PStr ''India''),
             (''skills'', PList [PStr ''ab'', PStr ''c'']),
             (''experiences'', PList [PDict [(''title'', PStr ''Engineer'')]])]) \<noteq> PNone"
    by code_simp
  have f: "field (normalize_profile
     (PDict [(''full_name'', PStr ''Ann''), (''country_full_name'', PStr ''India''),
             (''skills'', PList [PStr ''ab'', PStr ''c'']),
             (''experiences'', PList [PDict [(''title'', PStr ''Engineer'')]])])) ''full_name''
     = PStr ''Ann''"
    by code_simp
  from renormalize_fields [OF h] f h show ?thesis
    by simp
qed

text \<open>
  Normalization is not idempotent: for a response with a country and the one skill
  \<open>ab\<close>, the first normalization stores the country and the skills string \<open>ab\<close>, the
  second one stores an empty country and the skills string \<open>a, b\<close>.
\<close>

theorem normalize_not_idempotent_counterexample:
  "normalize_profile (normalize_profile
     (PDict [(''country_full_name'', PStr ''India''), (''skills'', PList [PStr ''ab''])]))
   \<noteq> normalize_profile
     (PDict [(''country_full_name'', PStr ''India''), (''skills'', PList [PStr ''ab''])]) \<and>
   field (normalize_profile
     (PDict [(''country_full_name'', PStr ''India''), (''skills'', PList [PStr ''ab''])])) ''skills''
     = PStr ''ab'' \<and>
   field (normalize_profile (normalize_profile
     (PDict [(''country_full_name'', PStr ''India''), (''skills'', PList [PStr ''ab''])]))) ''skills''
     = PStr ''a, b'' \<and>
   field (normalize_profile
     (PDict [(''country_full_name'', PStr ''India''), (''skills'', PList [PStr ''ab''])])) ''country''
     = PStr ''India'' \<and>
   field (normalize_profile (normalize_profile
     (PDict [(''country_full_name'', PStr ''India''), (''skills'', PList [PStr ''ab''])]))) ''country''
     = PStr ''''"
  by code_simp

section \<open>Spreadsheet sink: sheets missing from the existing file\<close>

lemma rows_DataFrame: "rows (DataFrame records) = records"
  by (simp add: DataFrame_def)

lemma rows_concat_empty: "rows (concat_frames empty_frame (DataFrame records)) = records"
  by (simp add: concat_frames_def empty_frame_def rows_DataFrame)

lemma drop_known_urls_Inr:
  assumes "''profile_url'' \<in> set (columns existing)" "''profile_url'' \<in> set (columns new)"
  shows "\<exists>df. drop_known_urls existing new = Inr df"
  using assms by (simp add: drop_known_urls_def column_cells_def)

lemma merged_sheets_three_present:
  assumes "map_of xls ''Profiles'' = Some ep"
    and "map_of xls ''Educations'' = Some ee"
    and "map_of xls ''Experiences'' = Some ex"
    and "''profile_url'' \<in> set (columns ep)"
  shows "\<exists>p e x.
           merged_sheets np ne nx nc nt
             (Some xls) True
           = Inr [(''Profiles'', p), (''Educations'', e), (''Experiences'', x),
                  (''Club Experiences'',
                     concat_frames (case map_of xls ''Club Experiences'' of
                                      None \<Rightarrow> empty_frame | Some df \<Rightarrow> df)
                                   (DataFrame nc)),
                  (''Certifications'',
                     concat_frames (case map_of xls ''Certifications'' of
                                      None \<Rightarrow> empty_frame | Some df \<Rightarrow> df)
                                   (DataFrame nt))]"
proof (cases "\<not> is_empty (DataFrame np) \<and> ''profile_url'' \<in> set (columns (DataFrame np))")
  case True
  then obtain df where "drop_known_urls ep (DataFrame np) = Inr df"
    using drop_known_urls_Inr [OF assms(4)] by blast
  with True assms(1-3) show ?thesis
    by (simp add: merged_sheets_def read_excel_def Let_def split: option.splits)
next
  case False
  with assms(1-3) show ?thesis
    by (auto simp: merged_sheets_def read_excel_def Let_def split: option.splits)
qed

lemma merged_sheets_one_missing:
  assumes "map_of xls ''Profiles'' = None \<or> map_of xls ''Educations'' = None
           \<or> map_of xls ''Experiences'' = None"
  shows "merged_sheets np ne nx nc nt
           (Some xls) True = Inl ValueError"
  using assms
  by (auto simp: merged_sheets_def read_excel_def Let_def split: option.splits)

text \<open>
  Claim C7, as the code has it. When the file exists and is appended to: if the sheets
  \<open>Profiles\<close>, \<open>Educations\<close> and \<open>Experiences\<close> are there (and \<open>Profiles\<close> has its
  \<open>profile_url\<close> column), the write completes, and a missing \<open>Club Experiences\<close> or
  \<open>Certifications\<close> sheet is taken as empty, so that the sheet written holds the new
  rows only. If one of \<open>Profiles\<close>, \<open>Educations\<close> and \<open>Experiences\<close> is missing, the
  write fails: the answer is \<open>None\<close> and the file is left as it was.
\<close>

theorem write_to_excel_missing_sheet:
  "(map_of xls ''Profiles'' = Some ep \<longrightarrow> map_of xls ''Educations'' = Some ee \<longrightarrow>
    map_of xls ''Experiences'' = Some ex \<longrightarrow> ''profile_url'' \<in> set (columns ep) \<longrightarrow>
      (\<exists>sheets.
         write_to_excel np ne nx nc nt
           output_file (Some xls) True = (Some output_file, Some sheets) \<and>
         (map_of xls ''Club Experiences'' = None \<longrightarrow>
            (\<exists>df. map_of sheets ''Club Experiences'' = Some df \<and> rows df = nc)) \<and>
         (map_of xls ''Certifications'' = None \<longrightarrow>
            (\<exists>df. map_of sheets ''Certifications'' = Some df \<and> rows df = nt)))) \<and>
   (map_of xls ''Profiles'' = None \<or> map_of xls ''Educations'' = None
      \<or> map_of xls ''Experiences'' = None \<longrightarrow>
      write_to_excel np ne nx nc nt
        output_file (Some xls) True = (None, Some xls))"
proof (intro conjI impI)
  assume a: "map_of xls ''Profiles'' = Some ep" "map_of xls ''Educations'' = Some ee"
    "map_of xls ''Experiences'' = Some ex" "''profile_url'' \<in> set (columns ep)"
  from merged_sheets_three_present [OF a] obtain p e x where
    m: "merged_sheets np ne nx nc nt
             (Some xls) True
           = Inr [(''Profiles'', p), (''Educations'', e), (''Experiences'', x),
                  (''Club Experiences'',
                     concat_frames (case map_of xls ''Club Experiences'' of
                                      None \<Rightarrow> empty_frame | Some df \<Rightarrow> df)
                                   (DataFrame nc)),
                  (''Certifications'',
                     concat_frames (case map_of xls ''Certifications'' of
                                      None \<Rightarrow> empty_frame | Some df \<Rightarrow> df)
                                   (DataFrame nt))]"
    by blast
  show "\<exists>sheets.
         write_to_excel np ne nx nc nt
           output_file (Some xls) True = (Some output_file, Some sheets) \<and>
         (map_of xls ''Club Experiences'' = None \<longrightarrow>
            (\<exists>df. map_of sheets ''Club Experiences'' = Some df \<and> rows df = nc)) \<and>
         (map_of xls ''Certifications'' = None \<longrightarrow>
            (\<exists>df. map_of sheets ''Certifications'' = Some df \<and> rows df = nt))"
    by (simp add: write_to_excel_def m rows_concat_empty)
next
  assume "map_of xls ''Profiles'' = None \<or> map_of xls ''Educations'' = None
      \<or> map_of xls ''Experiences'' = None"
  from merged_sheets_one_missing [OF this]
  show "write_to_excel np ne nx nc nt
        output_file (Some xls) True = (None, Some xls)"
    by (simp add: write_to_excel_def)
qed

text \<open>The theorem at a file with the three sheets only, and at a file without the
  \<open>Educations\<close> sheet.\<close>

theorem write_to_excel_missing_sheet_witness:
  "(\<exists>sheets.
      write_to_excel [[(''profile_id'', PInt 2), (''profile_url'', PStr ''u2'')]] [] []
        [[(''profile_id'', PInt 2), (''club_name'', PStr ''Debate Club'')]]
        [[(''profile_id'', PInt 2), (''name'', PStr ''c'')]] ''SampleData.xlsx''
        (Some [(''Profiles'', DataFrame [[(''profile_id'', PInt 1), (''profile_url'', PStr ''u1'')]]),
               (''Educations'', empty_frame), (''Experiences'', empty_frame)]) True
      = (Some ''SampleData.xlsx'', Some sheets) \<and>
      (\<exists>df. map_of sheets ''Club Experiences'' = Some df \<and>
            rows df = [[(''profile_id'', PInt 2), (''club_name'', PStr ''Debate Club'')]]) \<and>
      (\<exists>df. map_of sheets ''Certifications'' = Some df \<and>
            rows df = [[(''profile_id'', PInt 2), (''name'', PStr ''c'')]])) \<and>
   write_to_excel [[(''profile_id'', PInt 2), (''profile_url'', PStr ''u2'')]] [] [] [] []
     ''SampleData.xlsx''
     (Some [(''Profiles'', DataFrame [[(''profile_id'', PInt 1), (''profile_url'', PStr ''u1'')]]),
            (''Experiences'', empty_frame)]) True
   = (None,
      Some [(''Profiles'', DataFrame [[(''profile_id'', PInt 1), (''profile_url'', PStr ''u1'')]]),
            (''Experiences'', empty_frame)])"
  using write_to_excel_missing_sheet
          [of "[(''Profiles'', DataFrame [[(''profile_id'', PInt 1), (''profile_url'', PStr ''u1'')]]),
                (''Educations'', empty_frame), (''Experiences'', empty_frame)]"
              "DataFrame [[(''profile_id'', PInt 1), (''profile_url'', PStr ''u1'')]]"
              empty_frame empty_frame
              "[[(''profile_id'', PInt 2), (''profile_url'', PStr ''u2'')]]" "[]" "[]"
              "[[(''profile_id'', PInt 2), (''club_name'', PStr ''Debate Club'')]]"
              "[[(''profile_id'', PInt 2), (''name'', PStr ''c'')]]" "''SampleData.xlsx''"]
        write_to_excel_missing_sheet
          [of "[(''Profiles'', DataFrame [[(''profile_id'', PInt 1), (''profile_url'', PStr ''u1'')]]),
                (''Experiences'', empty_frame)]"
              empty_frame empty_frame empty_frame
              "[[(''profile_id'', PInt 2), (''profile_url'', PStr ''u2'')]]" "[]" "[]" "[]" "[]"
              "''SampleData.xlsx''"]
  by (simp add: DataFrame_def union_columns_def)

text \<open>
  A file that has the sheets \<open>Profiles\<close> and \<open>Experiences\<close> but no sheet
  \<open>Educations\<close>: the sheet is not taken as empty, the write does not complete.
\<close>

theorem write_to_excel_missing_educations_counterexample:
  "write_to_excel [[(''profile_id'', PInt 2), (''profile_url'', PStr ''u2'')]] [] [] [] []
     ''SampleData.xlsx''
     (Some [(''Profiles'', DataFrame [[(''profile_id'', PInt 1), (''profile_url'', PStr ''u1'')]]),
            (''Experiences'', empty_frame)]) True
   = (None,
      Some [(''Profiles'', DataFrame [[(''profile_id'', PInt 1), (''profile_url'', PStr ''u1'')]]),
            (''Experiences'', empty_frame)])"
  by code_simp

section \<open>Steps of the batch loop\<close>

lemma py_get_py_set:
  "py_get (py_set d k v) k' dflt = (if k' = k then v else py_get d k' dflt)"
  by (induction d k v rule: py_set.induct) (auto simp: py_get_def)

lemma profile_exists_None:
  assumes "PStr u \<notin> set (map row_profile_url (profiles store))"
  shows "profile_exists store f u = None"
  using assms by (force simp: profile_exists_def find_None_iff)

lemma insert_single_profile_profiles:
  assumes "insert_single_profile store f pd es xs cs ts = (r, store')"
  shows "profiles store' = profiles store \<or>
         (\<exists>row. profiles store' = profiles store @ [row] \<and>
                row_profile_url row = py_get pd ''profile_url'' PNone \<and>
                PInt (row_profile_id row) = py_get pd ''profile_id'' PNone)"
  using assms
  by (auto simp: insert_single_profile_def new_profile_row_def Let_def
           split: if_splits sum.splits option.splits pyval.splits)

lemma insert_single_profile_True:
  assumes "insert_single_profile store f pd es xs cs ts = (Inr True, store')"
  shows "f = NoFault"
  using assms
  by (cases f)
     (auto simp: insert_single_profile_def Let_def
           split: if_splits sum.splits option.splits)

lemma insert_single_profile_NoFault:
  assumes "insert_single_profile store NoFault pd es xs cs ts = (Inr b, store')"
    and "find (\<lambda>r. row_profile_url r = py_get pd ''profile_url'' PNone) (profiles store) = None"
    and "py_get pd ''profile_id'' PNone = PInt i"
  shows "b \<and> (\<exists>cols. profiles store' = profiles store @
            [\<lparr>row_profile_id = i, row_profile_url = py_get pd ''profile_url'' PNone,
              row_columns = cols\<rparr>])"
  using assms
  by (auto simp: insert_single_profile_def new_profile_row_def Let_def
           split: if_splits sum.splits option.splits)

lemma prepare_profile_keys:
  assumes "prepare_profile ext m cid fetched = Inr p"
  shows "py_get (prep_profile p) ''profile_url'' PNone = PStr (url m) \<and>
         py_get (prep_profile p) ''profile_id'' PNone = PInt cid"
  using assms
  by (auto simp: prepare_profile_def Let_def bind_err_Inr_iff py_get_py_set)


lemma fetch_truthy_PDict:
  assumes "truthy (fetch_linkedin_data resp u)"
  shows "\<exists>fetched. fetch_linkedin_data resp u = PDict fetched"
  using assms
  by (cases "fetch_linkedin_data resp u")
     (auto simp: fetch_linkedin_data_def normalize_profile_def
           split: if_splits option.splits sum.splits dest: normalize_body_shape)

lemma process_profile_unchanged:
  assumes "(profile_exists (db st) (exists_raises (snd pe)) (url (fst pe)) \<noteq> None \<and>
            profile_exists (db st) (exists_raises (snd pe)) (url (fst pe)) \<noteq> Some 0)
           \<or> \<not> truthy (fetch_linkedin_data (response (snd pe)) (url (fst pe)))"
  shows "process_profile ext st pe = (None, st)"
  using assms by (auto simp: process_profile_def Let_def split: if_splits)

lemma process_profile_new:
  assumes new: "profile_exists (db st) (exists_raises (snd pe)) (url (fst pe)) = None \<or>
                profile_exists (db st) (exists_raises (snd pe)) (url (fst pe)) = Some 0"
    and fetch: "truthy (fetch_linkedin_data (response (snd pe)) (url (fst pe)))"
    and step: "process_profile ext st pe = (r, st')"
  shows "max_profile_id st' = max_profile_id st + 1 \<and>
         assigned st' = assigned st @ [(url (fst pe), max_profile_id st + 1)] \<and>
         (profiles (db st') = profiles (db st) \<or>
          (\<exists>row. profiles (db st') = profiles (db st) @ [row] \<and>
                 row_profile_url row = PStr (url (fst pe)) \<and>
                 row_profile_id row = max_profile_id st + 1))"
proof -
  from fetch_truthy_PDict [OF fetch] obtain fetched where
    f: "fetch_linkedin_data (response (snd pe)) (url (fst pe)) = PDict fetched"
    by blast
  show ?thesis
  proof (cases "prepare_profile ext (fst pe) (max_profile_id st + 1) fetched")
    case (Inl e)
    with step new fetch f show ?thesis
      by (auto simp: process_profile_def Let_def split: if_splits)
  next
    case (Inr p)
    obtain res store' where ins:
      "insert_single_profile (db st) (insert_fault (snd pe)) (prep_profile p)
         (prep_educations p) (prep_experiences p) (prep_club_experiences p)
         (prep_certifications p) = (res, store')"
      by (cases "insert_single_profile (db st) (insert_fault (snd pe)) (prep_profile p)
         (prep_educations p) (prep_experiences p) (prep_club_experiences p)
         (prep_certifications p)") blast
    from insert_single_profile_profiles [OF ins] prepare_profile_keys [OF Inr]
    have rows: "profiles store' = profiles (db st) \<or>
         (\<exists>row. profiles store' = profiles (db st) @ [row] \<and>
                row_profile_url row = PStr (url (fst pe)) \<and>
                row_profile_id row = max_profile_id st + 1)"
      by auto
    from step new fetch f Inr ins rows show ?thesis
      by (auto simp: process_profile_def Let_def split: if_splits sum.splits bool.splits)
  qed
qed



lemma find_append_last:
  "find P (xs @ [r]) = (case find P xs of None \<Rightarrow> (if P r then Some r else None) | Some x \<Rightarrow> Some x)"
  by (induction xs) simp_all

lemma process_profile_saved:
  assumes fresh: "PStr (url (fst pe)) \<notin> set (map row_profile_url (profiles (db st)))"
    and fetch: "truthy (fetch_linkedin_data (response (snd pe)) (url (fst pe)))"
    and nofault: "insert_fault (snd pe) = NoFault"
    and step: "process_profile ext st pe = (None, st')"
  shows "\<exists>cols. profiles (db st') = profiles (db st) @
           [\<lparr>row_profile_id = max_profile_id st + 1,
             row_profile_url = PStr (url (fst pe)), row_columns = cols\<rparr>]"
proof -
  have new: "profile_exists (db st) (exists_raises (snd pe)) (url (fst pe)) = None"
    using fresh by (rule profile_exists_None)
  from fetch_truthy_PDict [OF fetch] obtain fetched where
    f: "fetch_linkedin_data (response (snd pe)) (url (fst pe)) = PDict fetched"
    by blast
  show ?thesis
  proof (cases "prepare_profile ext (fst pe) (max_profile_id st + 1) fetched")
    case (Inl e)
    with step new fetch f show ?thesis
      by (auto simp: process_profile_def Let_def split: if_splits)
  next
    case (Inr p)
    obtain res store' where ins:
      "insert_single_profile (db st) NoFault (prep_profile p)
         (prep_educations p) (prep_experiences p) (prep_club_experiences p)
         (prep_certifications p) = (res, store')"
      by (cases "insert_single_profile (db st) NoFault (prep_profile p)
         (prep_educations p) (prep_experiences p) (prep_club_experiences p)
         (prep_certifications p)") blast
    from step new fetch f Inr ins nofault obtain b where
      res: "res = Inr b" and st': "db st' = store'"
      by (auto simp: process_profile_def Let_def split: if_splits sum.splits bool.splits)
    from prepare_profile_keys [OF Inr] have
      k1: "py_get (prep_profile p) ''profile_url'' PNone = PStr (url (fst pe))" and
      k2: "py_get (prep_profile p) ''profile_id'' PNone = PInt (max_profile_id st + 1)"
      by blast+
    have none: "find (\<lambda>r. row_profile_url r = py_get (prep_profile p) ''profile_url'' PNone)
                  (profiles (db st)) = None"
      using fresh by (force simp: k1 find_None_iff)
    from insert_single_profile_NoFault [OF ins [unfolded res] none k2] show ?thesis
      by (simp add: st' k1)
  qed
qed



section \<open>Identifiers assigned in a batch\<close>




section \<open>Submitting a URL twice\<close>

text \<open>
  Claim C2, as the code has it. A URL that the store does not hold is submitted twice in
  sequence, in a loop whose high-water mark is not negative. If the first submission is
  fetched, is written to the store without a database error and raises no exception,
  and the existence query of the second submission meets no database error, then the
  second iteration leaves the whole state of the loop as it is: nothing is written to
  the store, nothing is added to the lists from which the spreadsheet is written, and no
  identifier is taken. Afterwards the store holds exactly one profile with that URL, and
  one identifier has been assigned in all.
\<close>

theorem duplicate_submission_skipped:
  assumes "PStr u \<notin> set (map row_profile_url (profiles (db st)))"
    and "url m1 = u" and "url m2 = u"
    and "truthy (fetch_linkedin_data (response e1) u)"
    and "insert_fault e1 = NoFault"
    and "\<not> exists_raises e2"
    and "0 \<le> max_profile_id st"
    and "fst (process_profile ext st (m1, e1)) = None"
  shows "\<exists>st1. process_profile ext st (m1, e1) = (None, st1) \<and>
           process_profile ext st1 (m2, e2) = (None, st1) \<and>
           batch_loop ext st [(m1, e1), (m2, e2)] = (None, st1) \<and>
           length (filter (\<lambda>r. row_profile_url r = PStr u) (profiles (db st1))) = 1 \<and>
           max_profile_id st1 = max_profile_id st + 1 \<and>
           assigned st1 = assigned st @ [(u, max_profile_id st + 1)]"
proof -
  obtain st1 where step: "process_profile ext st (m1, e1) = (None, st1)"
    using assms(8) by (cases "process_profile ext st (m1, e1)") auto
  have fresh: "PStr (url (fst (m1, e1))) \<notin> set (map row_profile_url (profiles (db st)))"
    using assms(1,2) by simp
  have fetch: "truthy (fetch_linkedin_data (response (snd (m1, e1))) (url (fst (m1, e1))))"
    using assms(2,4) by simp
  have nofault: "insert_fault (snd (m1, e1)) = NoFault"
    using assms(5) by simp
  from process_profile_saved [OF fresh fetch nofault step] obtain cols where
    rows: "profiles (db st1) = profiles (db st) @
           [\<lparr>row_profile_id = max_profile_id st + 1,
             row_profile_url = PStr u, row_columns = cols\<rparr>]"
    using assms(2) by auto
  have none: "find (\<lambda>r. row_profile_url r = PStr u) (profiles (db st)) = None"
    using assms(1) by (force simp: find_None_iff)
  have nomatch: "filter (\<lambda>r. row_profile_url r = PStr u) (profiles (db st)) = []"
    using assms(1) by (force simp: filter_empty_conv)
  have ex: "profile_exists (db st1) (exists_raises e2) (url m2) = Some (max_profile_id st + 1)"
    using assms(3,6) by (simp add: profile_exists_def rows find_append_last none)
  have second: "process_profile ext st1 (m2, e2) = (None, st1)"
    using assms(7) by (intro process_profile_unchanged) (simp add: ex)
  have new: "profile_exists (db st) (exists_raises (snd (m1, e1))) (url (fst (m1, e1))) = None"
    using fresh by (rule profile_exists_None)
  from process_profile_new [OF disjI1 [OF new] fetch step] have
    m: "max_profile_id st1 = max_profile_id st + 1" and
    a: "assigned st1 = assigned st @ [(u, max_profile_id st + 1)]"
    using assms(2) by auto
  have loop: "batch_loop ext st [(m1, e1), (m2, e2)] = (None, st1)"
    by (simp add: step second)
  have one: "length (filter (\<lambda>r. row_profile_url r = PStr u) (profiles (db st1))) = 1"
    by (simp add: rows nomatch)
  from step second loop one m a show ?thesis
    by blast
qed

text \<open>The theorem at the empty store, with the same URL submitted twice.\<close>

theorem duplicate_submission_skipped_witness:
  "\<exists>st1. batch_loop example_externals (initial_state empty_database 0)
            [(example_meta ann_url, example_env NoFault),
             (example_meta ann_url, example_env NoFault)] = (None, st1) \<and>
         length (filter (\<lambda>r. row_profile_url r = PStr ann_url) (profiles (db st1))) = 1 \<and>
         max_profile_id st1 = 1 \<and>
         assigned st1 = [(ann_url, 1)]"
proof -
  have h1: "PStr ann_url \<notin>
      set (map row_profile_url (profiles (db (initial_state empty_database 0))))"
    by (simp add: initial_state_def empty_database_def)
  have h2: "url (example_meta ann_url) = ann_url"
    by (simp add: example_meta_def)
  have h4: "truthy (fetch_linkedin_data (response (example_env NoFault)) ann_url)"
    by code_simp
  have h5: "insert_fault (example_env NoFault) = NoFault"
    by (simp add: example_env_def)
  have h6: "\<not> exists_raises (example_env NoFault)"
    by (simp add: example_env_def)
  have h7: "0 \<le> max_profile_id (initial_state empty_database 0)"
    by (simp add: initial_state_def)
  have h8: "fst (process_profile example_externals (initial_state empty_database 0)
                   (example_meta ann_url, example_env NoFault)) = None"
    by code_simp
  have m: "max_profile_id (initial_state empty_database 0) = 0"
    by (simp add: initial_state_def)
  have a: "assigned (initial_state empty_database 0) = []"
    by (simp add: initial_state_def)
  from duplicate_submission_skipped [OF h1 h2 h2 h4 h5 h6 h7 h8] show ?thesis
    by (auto simp: m a)
qed

text \<open>
  The same URL submitted twice on the empty store, in two batches. In the first batch
  the existence query of the second submission raises a database error, which
  \<open>profile_exists\<close> answers with \<open>None\<close>: the second submission is fetched and takes
  the identifier 2, although the store holds the profile under the identifier 1. In the
  second batch the write of the first submission fails at the first commit: the second
  submission takes the identifier 2 and is written to the store and to the lists from
  which the spreadsheet is written.
\<close>

theorem second_submission_takes_identifier_counterexample:
  "is_completed (batch_process_excel example_externals
      [(example_meta ann_url, example_env NoFault),
       (example_meta ann_url,
        \<lparr>exists_raises = True, response = Some example_response, insert_fault = NoFault\<rparr>)]
      None None True False empty_database) \<and>
   map_option assigned (result_state (batch_process_excel example_externals
      [(example_meta ann_url, example_env NoFault),
       (example_meta ann_url,
        \<lparr>exists_raises = True, response = Some example_response, insert_fault = NoFault\<rparr>)]
      None None True False empty_database))
     = Some [(ann_url, 1), (ann_url, 2)] \<and>
   map_option max_profile_id (result_state (batch_process_excel example_externals
      [(example_meta ann_url, example_env NoFault),
       (example_meta ann_url,
        \<lparr>exists_raises = True, response = Some example_response, insert_fault = NoFault\<rparr>)]
      None None True False empty_database))
     = Some 2 \<and>
   map_option (map row_profile_id \<circ> profiles \<circ> db) (result_state (batch_process_excel
      example_externals
      [(example_meta ann_url, example_env NoFault),
       (example_meta ann_url,
        \<lparr>exists_raises = True, response = Some example_response, insert_fault = NoFault\<rparr>)]
      None None True False empty_database))
     = Some [1] \<and>
   is_completed (batch_process_excel example_externals
      [(example_meta ann_url, example_env FirstCommitRaises),
       (example_meta ann_url, example_env NoFault)]
      None None True False empty_database) \<and>
   map_option assigned (result_state (batch_process_excel example_externals
      [(example_meta ann_url, example_env FirstCommitRaises),
       (example_meta ann_url, example_env NoFault)]
      None None True False empty_database))
     = Some [(ann_url, 1), (ann_url, 2)] \<and>
   map_option (map row_profile_id \<circ> profiles \<circ> db) (result_state (batch_process_excel
      example_externals
      [(example_meta ann_url, example_env FirstCommitRaises),
       (example_meta ann_url, example_env NoFault)]
      None None True False empty_database))
     = Some [2] \<and>
   map_option (length \<circ> profiles_data) (result_state (batch_process_excel
      example_externals
      [(example_meta ann_url, example_env FirstCommitRaises),
       (example_meta ann_url, example_env NoFault)]
      None None True False empty_database))
     = Some 1"
  by code_simp


section \<open>A profile whose relational write fails\<close>

text \<open>
  Claim C5, as the code has it. When the write of a profile meets a database error, the
  iteration adds nothing to the five lists that \<open>batch_process_excel\<close> returns: neither
  the profile nor any of its educations, experiences, club experiences and
  certifications is handed to the spreadsheet write at the end of the run. If no
  exception leaves the iteration, the loop goes on with the next profile.
\<close>

theorem failed_insert_left_out:
  assumes "insert_fault (snd pe) \<noteq> NoFault"
    and "process_profile ext st pe = (r, st')"
  shows "profiles_data st' = profiles_data st \<and>
         educations_data st' = educations_data st \<and>
         experiences_data st' = experiences_data st \<and>
         club_experiences_data st' = club_experiences_data st \<and>
         certifications_data st' = certifications_data st \<and>
         (r = None \<longrightarrow> batch_loop ext st (pe # rest) = batch_loop ext st' rest)"
proof -
  have "\<And>p store'. insert_single_profile (db st) (insert_fault (snd pe)) (prep_profile p)
         (prep_educations p) (prep_experiences p) (prep_club_experiences p)
         (prep_certifications p) \<noteq> (Inr True, store')"
    using assms(1) insert_single_profile_True by blast
  then have "\<And>p store' max' asg'. insert_single_profile (db (st\<lparr>max_profile_id := max', assigned := asg'\<rparr>)) (insert_fault (snd pe)) (prep_profile p)
         (prep_educations p) (prep_experiences p) (prep_club_experiences p)
         (prep_certifications p) \<noteq> (Inr True, store')"
    by simp
  with assms(2) show ?thesis
    by (auto simp: process_profile_def Let_def
             split: if_splits pyval.splits sum.splits prod.splits bool.splits)
qed

text \<open>The theorem at the empty store and a profile whose write fails at the first
  commit.\<close>

theorem failed_insert_left_out_witness:
  "insert_fault (example_env FirstCommitRaises) \<noteq> NoFault \<and>
   profiles_data (snd (process_profile example_externals (initial_state empty_database 0)
                         (example_meta ann_url, example_env FirstCommitRaises))) = [] \<and>
   certifications_data (snd (process_profile example_externals (initial_state empty_database 0)
                         (example_meta ann_url, example_env FirstCommitRaises))) = []"
proof -
  have h1: "insert_fault (snd (example_meta ann_url, example_env FirstCommitRaises)) \<noteq> NoFault"
    by (simp add: example_env_def)
  have h2: "process_profile example_externals (initial_state empty_database 0)
              (example_meta ann_url, example_env FirstCommitRaises)
            = (fst (process_profile example_externals (initial_state empty_database 0)
                      (example_meta ann_url, example_env FirstCommitRaises)),
               snd (process_profile example_externals (initial_state empty_database 0)
                      (example_meta ann_url, example_env FirstCommitRaises)))"
    by simp
  from failed_insert_left_out [OF h1 h2] h1 show ?thesis
    by (simp add: initial_state_def)
qed

text \<open>
  A batch of one profile whose write fails at the first commit: the batch runs to its
  end, the identifier 1 has been taken, the store is as it was, and the lists from which
  the spreadsheet is written are empty, so the spreadsheet write has no row for the
  profile.
\<close>

theorem failed_insert_no_spreadsheet_row_counterexample:
  "is_completed (batch_process_excel example_externals
      [(example_meta ann_url, example_env FirstCommitRaises)] None None True False
      empty_database) \<and>
   map_option assigned (result_state (batch_process_excel example_externals
      [(example_meta ann_url, example_env FirstCommitRaises)] None None True False
      empty_database)) = Some [(ann_url, 1)] \<and>
   map_option db (result_state (batch_process_excel example_externals
      [(example_meta ann_url, example_env FirstCommitRaises)] None None True False
      empty_database)) = Some empty_database \<and>
   map_option profiles_data (result_state (batch_process_excel example_externals
      [(example_meta ann_url, example_env FirstCommitRaises)] None None True False
      empty_database)) = Some [] \<and>
   map_option educations_data (result_state (batch_process_excel example_externals
      [(example_meta ann_url, example_env FirstCommitRaises)] None None True False
      empty_database)) = Some [] \<and>
   map_option experiences_data (result_state (batch_process_excel example_externals
      [(example_meta ann_url, example_env FirstCommitRaises)] None None True False
      empty_database)) = Some [] \<and>
   map_option club_experiences_data (result_state (batch_process_excel example_externals
      [(example_meta ann_url, example_env FirstCommitRaises)] None None True False
      empty_database)) = Some [] \<and>
   map_option certifications_data (result_state (batch_process_excel example_externals
      [(example_meta ann_url, example_env FirstCommitRaises)] None None True False
      empty_database)) = Some []"
  by code_simp

section \<open>A high-water mark that cannot be read\<close>




section \<open>A database error at the second commit\<close>

text \<open>
  Claim C4 at a profile with one certification, where the second \<open>session.commit()\<close>
  of \<open>insert_single_profile\<close> raises. The profile row has been committed by the first
  commit and stays in the store, without its certification, while the answer is
  \<open>False\<close>. In a batch that submits the URL twice, the profile is left out of the
  lists that are returned and the second submission finds the URL in the store and is
  skipped: the store keeps the profile without its certification.
\<close>

theorem insert_single_profile_second_commit:
  "fst (insert_single_profile empty_database SecondCommitRaises
          [(''profile_id'', PInt 1), (''profile_url'', PStr ann_url)] [] [] []
          [PDict [(''name'', PStr ''PMP'')]]) = Inr False \<and>
   map row_profile_id (profiles (snd (insert_single_profile empty_database SecondCommitRaises
          [(''profile_id'', PInt 1), (''profile_url'', PStr ann_url)] [] [] []
          [PDict [(''name'', PStr ''PMP'')]]))) = [1] \<and>
   certifications (snd (insert_single_profile empty_database SecondCommitRaises
          [(''profile_id'', PInt 1), (''profile_url'', PStr ann_url)] [] [] []
          [PDict [(''name'', PStr ''PMP'')]])) = [] \<and>
   is_completed (batch_process_excel example_externals
      [(example_meta ann_url, example_env SecondCommitRaises),
       (example_meta ann_url, example_env NoFault)] None None True False empty_database) \<and>
   map_option profiles_data (result_state (batch_process_excel example_externals
      [(example_meta ann_url, example_env SecondCommitRaises),
       (example_meta ann_url, example_env NoFault)] None None True False empty_database))
     = Some [] \<and>
   map_option (map row_profile_id \<circ> profiles \<circ> db) (result_state (batch_process_excel
      example_externals
      [(example_meta ann_url, example_env SecondCommitRaises),
       (example_meta ann_url, example_env NoFault)] None None True False empty_database))
     = Some [1] \<and>
   map_option (length \<circ> educations \<circ> db) (result_state (batch_process_excel
      example_externals
      [(example_meta ann_url, example_env SecondCommitRaises),
       (example_meta ann_url, example_env NoFault)] None None True False empty_database))
     = Some 1 \<and>
   map_option (certifications \<circ> db) (result_state (batch_process_excel
      example_externals
      [(example_meta ann_url, example_env SecondCommitRaises),
       (example_meta ann_url, example_env NoFault)] None None True False empty_database))
     = Some []"
  by code_simp

end
